theory Spec2Isabelle
  imports Main
begin

section \<open>Results, outcomes and strings\<close>

text \<open>
  Every public operation of \<^verbatim>\<open>opportunities.ts\<close> is an async function that resolves to
  a \<^verbatim>\<open>Result\<close>: either \<^verbatim>\<open>fail({ code, error })\<close> or \<^verbatim>\<open>success(data)\<close>.
  A rejected promise (an exception that unwinds through the function) is a third
  outcome, kept apart from both.
\<close>

datatype 'a result = Fail nat string | Success 'a

datatype 'a outcome = Threw | Returned 'a

text \<open>
  A JavaScript string is modelled as a \<^typ>\<open>string\<close>, one \<^typ>\<open>char\<close> for each code
  unit; \<^verbatim>\<open>toLowerCase\<close> is modelled on the letters A to Z.
\<close>

definition toLowerChar :: "char \<Rightarrow> char" where
  "toLowerChar c =
     (case map_of (zip ''ABCDEFGHIJKLMNOPQRSTUVWXYZ'' ''abcdefghijklmnopqrstuvwxyz'') c of
        None \<Rightarrow> c
      | Some d \<Rightarrow> d)"

definition toLowerCase :: "string \<Rightarrow> string" where
  "toLowerCase s = map toLowerChar s"

text \<open>\<^verbatim>\<open>s.startsWith(sub)\<close> and \<^verbatim>\<open>s.includes(sub)\<close>.\<close>

fun startsWith :: "string \<Rightarrow> string \<Rightarrow> bool" where
  "startsWith s [] = True"
| "startsWith [] (c # sub) = False"
| "startsWith (d # s) (c # sub) = (d = c \<and> startsWith s sub)"

fun includes_str :: "string \<Rightarrow> string \<Rightarrow> bool" where
  "includes_str [] sub = (sub = [])"
| "includes_str (d # s) sub = (startsWith (d # s) sub \<or> includes_str s sub)"

text \<open>JavaScript truthiness of a nullable string: neither \<^verbatim>\<open>null\<close> nor empty.\<close>

fun truthy :: "string option \<Rightarrow> bool" where
  "truthy None = False"
| "truthy (Some s) = (s \<noteq> [])"

section \<open>The expired phrases\<close>

text \<open>
  The constant \<^verbatim>\<open>EXPIRED_PHRASES\<close> (lines 29 to 49), in the order of the source. The
  phrase before \<^verbatim>\<open>removed\<close> and the last phrase are written as concatenations;
  their values are the source's four-letter and five-letter words.
\<close>

definition EXPIRED_PHRASES :: "string list" where
  "EXPIRED_PHRASES =
     [''404'',
      ''closed'',
      ''does not exist'',
      ''doesn'' @ [CHR 0x27] @ ''t exist'',
      ''expired'',
      ''filled'',
      ''no longer accepting'',
      ''no longer available'',
      ''no longer exists'',
      ''no longer open'',
      ''not accepting'',
      ''not available'',
      ''not be found'',
      ''not currently accepting'',
      ''not found'',
      ''not open'',
      ''oop'' @ ''s'',
      ''removed'',
      ''sorr'' @ ''y'']"

text \<open>
  \<^verbatim>\<open>EXPIRED_PHRASES.some((phrase) => content.toLowerCase().includes(phrase))\<close>,
  the scan of lines 125 to 127 and 319 to 321.
\<close>

definition hasExpired :: "string \<Rightarrow> bool" where
  "hasExpired content = list_ex (\<lambda>phrase. includes_str (toLowerCase content) phrase) EXPIRED_PHRASES"

text \<open>
  The wording of the specification for the same scan: the content, compared without
  regard to case, contains one of the phrases as a contiguous piece.
\<close>

definition containsExpiredPhrase :: "string \<Rightarrow> bool" where
  "containsExpiredPhrase content \<longleftrightarrow>
     (\<exists>phrase \<in> set EXPIRED_PHRASES. \<exists>before after.
        toLowerCase content = before @ toLowerCase phrase @ after)"

section \<open>The \<^verbatim>\<open>ilike\<close> operator of the store\<close>

text \<open>
  The duplicate check is \<^verbatim>\<open>.where('link', 'ilike', link)\<close>: the submitted link is
  the \<^emph>\<open>pattern\<close> of a case-insensitive \<^verbatim>\<open>LIKE\<close>. In a pattern an underscore
  stands for any one character, a percent sign for any run of characters, and a
  backslash takes the character after it literally. A pattern that ends in a backslash
  with nothing after it is not well formed: the store raises an error when a comparison
  reaches the end of such a pattern, and the model lets the statement fail for every
  such pattern. The theorems on submissions are about links whose check returned.
\<close>

datatype like_token = Literal char | AnyOne | AnyRun

fun like_tokens :: "string \<Rightarrow> like_token list option" where
  "like_tokens [] = Some []"
| "like_tokens (c # cs) =
     (if c = CHR 0x5C then
        (case cs of
           [] \<Rightarrow> None
         | d # ds \<Rightarrow> map_option ((#) (Literal d)) (like_tokens ds))
      else if c = CHR ''_'' then map_option ((#) AnyOne) (like_tokens cs)
      else if c = CHR ''%'' then map_option ((#) AnyRun) (like_tokens cs)
      else map_option ((#) (Literal c)) (like_tokens cs))"

fun like_matches :: "like_token list \<Rightarrow> string \<Rightarrow> bool" where
  "like_matches [] s = (s = [])"
| "like_matches (Literal c # ts) [] = False"
| "like_matches (Literal c # ts) (d # s) = (c = d \<and> like_matches ts s)"
| "like_matches (AnyOne # ts) [] = False"
| "like_matches (AnyOne # ts) (d # s) = like_matches ts s"
| "like_matches (AnyRun # ts) [] = like_matches ts []"
| "like_matches (AnyRun # ts) (d # s) = (like_matches ts (d # s) \<or> like_matches (AnyRun # ts) s)"

text \<open>
  \<^verbatim>\<open>value ILIKE pattern\<close>: \<open>None\<close> when the pattern is rejected, otherwise whether the
  lower-cased value matches the lower-cased pattern.
\<close>

definition ilike :: "string \<Rightarrow> string \<Rightarrow> bool option" where
  "ilike v pattern = map_option (\<lambda>ts. like_matches ts (toLowerCase v)) (like_tokens (toLowerCase pattern))"

section \<open>The completion of the extraction client and its validation\<close>

text \<open>
  What \<^verbatim>\<open>JSON.parse\<close> returns. The members of an object are an association list,
  each key once.
\<close>

datatype json =
    JNull
  | JBool bool
  | JNumber int
  | JString string
  | JArray "json list"
  | JObject "(string \<times> json) list"

text \<open>
  The type \<^verbatim>\<open>RefineOpportunityResponse\<close> (lines 724 to 732), the fields prefixed with
  \<open>ai_\<close>.
\<close>

record refineOpportunityResponse =
  ai_company :: "string option"
  ai_description :: "string option"
  ai_expiresAt :: "string option"
  ai_tags :: "string list option"
  ai_title :: "string option"

text \<open>\<^verbatim>\<open>String.prototype.trim\<close>, on the white space among the code units below 256.\<close>

definition isWhiteSpace :: "char \<Rightarrow> bool" where
  "isWhiteSpace c \<longleftrightarrow> c \<in> set [CHR 0x09, CHR 0x0A, CHR 0x0B, CHR 0x0C, CHR 0x0D, CHR 0x20, CHR 0xA0]"

definition trim :: "string \<Rightarrow> string" where
  "trim s = rev (dropWhile isWhiteSpace (rev (dropWhile isWhiteSpace s)))"

text \<open>
  \<^verbatim>\<open>z.string().trim().min(1).max(n).nullable()\<close> applied to the value of a key
  (\<open>None\<close> for an absent key). The result is \<open>None\<close> when the schema rejects the value,
  \<open>Some None\<close> for \<^verbatim>\<open>null\<close> and \<open>Some (Some s)\<close> for the trimmed string. The bound
  \<open>mx\<close> is \<open>None\<close> where the schema has no \<^verbatim>\<open>max\<close>.
\<close>

fun nullableTrimmedString :: "nat option \<Rightarrow> json option \<Rightarrow> string option option" where
  "nullableTrimmedString mx (Some JNull) = Some None"
| "nullableTrimmedString mx (Some (JString s)) =
     (if 1 \<le> length (trim s) \<and> (case mx of None \<Rightarrow> True | Some m \<Rightarrow> length (trim s) \<le> m)
      then Some (Some (trim s)) else None)"
| "nullableTrimmedString mx _ = None"

text \<open>\<^verbatim>\<open>z.string().nullable()\<close>.\<close>

fun nullableString :: "json option \<Rightarrow> string option option" where
  "nullableString (Some JNull) = Some None"
| "nullableString (Some (JString s)) = Some (Some s)"
| "nullableString _ = None"

text \<open>The elements of \<^verbatim>\<open>z.array(z.string().trim().min(1))\<close>.\<close>

fun trimmedStrings :: "json list \<Rightarrow> string list option" where
  "trimmedStrings [] = Some []"
| "trimmedStrings (JString s # js) =
     (if 1 \<le> length (trim s) then map_option ((#) (trim s)) (trimmedStrings js) else None)"
| "trimmedStrings (_ # js) = None"

text \<open>\<^verbatim>\<open>z.array(z.string().trim().min(1)).min(1).nullable()\<close>: the schema has no upper bound.\<close>

fun nullableTags :: "json option \<Rightarrow> string list option option" where
  "nullableTags (Some JNull) = Some None"
| "nullableTags (Some (JArray js)) =
     (if 1 \<le> length js then map_option Some (trimmedStrings js) else None)"
| "nullableTags _ = None"

text \<open>
  \<^verbatim>\<open>RefineOpportunityResponse.parse(json)\<close> (line 800): \<open>None\<close> when it throws.
\<close>

fun RefineOpportunityResponse_parse :: "json \<Rightarrow> refineOpportunityResponse option" where
  "RefineOpportunityResponse_parse (JObject members) =
     (case nullableTrimmedString None (map_of members ''company'') of
        None \<Rightarrow> None
      | Some company \<Rightarrow>
     (case nullableTrimmedString (Some 500) (map_of members ''description'') of
        None \<Rightarrow> None
      | Some description \<Rightarrow>
     (case nullableString (map_of members ''expiresAt'') of
        None \<Rightarrow> None
      | Some expires \<Rightarrow>
     (case nullableTags (map_of members ''tags'') of
        None \<Rightarrow> None
      | Some tags \<Rightarrow>
     (case nullableTrimmedString (Some 100) (map_of members ''title'') of
        None \<Rightarrow> None
      | Some title \<Rightarrow>
          Some \<lparr>ai_company = company, ai_description = description, ai_expiresAt = expires,
                ai_tags = tags, ai_title = title\<rparr>)))))"
| "RefineOpportunityResponse_parse _ = None"

text \<open>
  The same schema said as a property of the parsed value, field by field: each of
  \<^verbatim>\<open>company\<close>, \<^verbatim>\<open>title\<close> and \<^verbatim>\<open>description\<close> is \<^verbatim>\<open>null\<close> or a string that is not
  empty once trimmed, the trimmed title of at most 100 and the trimmed description of at
  most 500 characters; \<^verbatim>\<open>expiresAt\<close> is \<^verbatim>\<open>null\<close> or any string; \<^verbatim>\<open>tags\<close> is
  \<^verbatim>\<open>null\<close> or a list of one string or more, each not empty once trimmed. A key that is
  absent is rejected. There is no upper bound on the number of tags and no check that
  \<^verbatim>\<open>expiresAt\<close> is a date.
\<close>

definition nullableStringField :: "(string \<Rightarrow> bool) \<Rightarrow> json option \<Rightarrow> bool" where
  "nullableStringField accepted v =
     (case v of
        Some JNull \<Rightarrow> True
      | Some (JString s) \<Rightarrow> accepted s
      | _ \<Rightarrow> False)"

definition nonEmptyString :: "json \<Rightarrow> bool" where
  "nonEmptyString j = (case j of JString s \<Rightarrow> trim s \<noteq> [] | _ \<Rightarrow> False)"

definition nullableTagList :: "json option \<Rightarrow> bool" where
  "nullableTagList v =
     (case v of
        Some JNull \<Rightarrow> True
      | Some (JArray js) \<Rightarrow> js \<noteq> [] \<and> list_all nonEmptyString js
      | _ \<Rightarrow> False)"

definition acceptedBySchema :: "json \<Rightarrow> bool" where
  "acceptedBySchema j =
     (case j of
        JObject members \<Rightarrow>
          nullableStringField (\<lambda>s. trim s \<noteq> []) (map_of members ''company'')
          \<and> nullableStringField (\<lambda>s. trim s \<noteq> [] \<and> length (trim s) \<le> 500)
                (map_of members ''description'')
          \<and> nullableStringField (\<lambda>s. True) (map_of members ''expiresAt'')
          \<and> nullableTagList (map_of members ''tags'')
          \<and> nullableStringField (\<lambda>s. trim s \<noteq> [] \<and> length (trim s) \<le> 100)
                (map_of members ''title'')
      | _ \<Rightarrow> False)"

section \<open>The store\<close>

text \<open>
  The rows of the tables the module reads and writes. A timestamp is a number of
  milliseconds. The field \<^verbatim>\<open>id\<close> of an opportunity is \<open>ident\<close>.
\<close>

type_synonym timestamp = int

record opportunity =
  ident :: string
  link :: string
  title :: string
  description :: string
  companyId :: "string option"
  postedBy :: "string option"
  createdAt :: timestamp
  expiresAt :: "timestamp option"
  lastExpirationCheck :: "timestamp option"
  refinedAt :: "timestamp option"
  slackChannelId :: "string option"
  slackMessageId :: "string option"

record opportunityTag =
  tagId :: string
  tagName :: string
  tagColor :: string

record admin =
  memberId :: string
  deletedAt :: "timestamp option"

record opportunityReport =
  reportedOpportunityId :: string
  reporterId :: string
  reason :: string

record company =
  companyIdent :: string
  companyName :: string

text \<open>
  The tables. A tag association is a pair (opportunity id, tag id), a bookmark a pair
  (opportunity id, student id).
\<close>

record database =
  opportunities :: "opportunity list"
  opportunityTags :: "opportunityTag list"
  opportunityTagAssociations :: "(string \<times> string) list"
  opportunityBookmarks :: "(string \<times> string) list"
  opportunityReports :: "opportunityReport list"
  admins :: "admin list"
  companies :: "company list"

section \<open>External collaborators and effects\<close>

text \<open>
  The collaborators an operation calls and the clock readings it takes, as parameters:
  \<^item> \<open>now\<close> is \<^verbatim>\<open>new Date()\<close>, \<open>oneMonthFromNow\<close> is \<^verbatim>\<open>dayjs().add(1, 'month')\<close>;
  \<^item> \<open>newId\<close> is what \<^verbatim>\<open>id()\<close> returns;
  \<^item> \<open>getPageContent\<close> is \<open>None\<close> where the fetch throws;
  \<^item> \<open>getChatCompletion\<close> receives the two variable parts of the prompt, the page content
    and the names of the catalog's tags, and returns a \<^verbatim>\<open>Result\<close>;
  \<^item> \<open>JSON_parse\<close> is \<open>None\<close> where \<^verbatim>\<open>JSON.parse\<close> throws;
  \<^item> \<open>Date_parse\<close> is \<^verbatim>\<open>new Date(text)\<close>, \<open>None\<close> for an invalid date;
  \<^item> \<open>saveCompanyIfNecessary\<close> returns the company's id or \<^verbatim>\<open>null\<close>.
\<close>

record env =
  now :: timestamp
  oneMonthFromNow :: timestamp
  newId :: string
  getPageContent :: "string \<Rightarrow> string option"
  getChatCompletion :: "string \<Rightarrow> string list \<Rightarrow> string result"
  JSON_parse :: "string \<Rightarrow> json option"
  Date_parse :: "string \<Rightarrow> timestamp option"
  saveCompanyIfNecessary :: "string \<Rightarrow> string option"

text \<open>What an operation does besides reading and writing the store, in the order it does it.\<close>

datatype effect =
    PageFetched string
  | ExceptionReported
  | RefinementNotification string string string
  | AddedToBoardNotification string string string
  | Tracked string string string
  | ActivityCompleted string string string

text \<open>
  \<^item> \<open>PageFetched link\<close>: \<^verbatim>\<open>getPageContent(link)\<close> was called;
  \<^item> \<open>ExceptionReported\<close>: \<^verbatim>\<open>reportException(e)\<close>;
  \<^item> \<open>RefinementNotification opportunityId slackChannelId slackUserId\<close>:
    \<^verbatim>\<open>sendOpportunityRefinementNotification\<close> (lines 980 to 994);
  \<^item> \<open>AddedToBoardNotification channel threadId opportunityId\<close>: the job of lines 887 to 892;
  \<^item> \<open>Tracked event company user\<close>: \<^verbatim>\<open>track\<close> (lines 200 to 204);
  \<^item> \<open>ActivityCompleted bookmarkedBy opportunityId studentId\<close>: the job of lines 208 to 213.
\<close>

section \<open>Statements on the store\<close>

text \<open>\<^verbatim>\<open>updateTable('opportunities').set(...).where(...)\<close>: every row the condition selects.\<close>

definition updateOpportunities ::
  "(opportunity \<Rightarrow> bool) \<Rightarrow> (opportunity \<Rightarrow> opportunity) \<Rightarrow> database \<Rightarrow> database" where
  "updateOpportunities selected change db =
     db\<lparr>opportunities := map (\<lambda>r. if selected r then change r else r) (opportunities db)\<rparr>"

text \<open>
  \<^verbatim>\<open>deleteFrom('opportunities').where('id', '=', opportunityId)\<close>. The rows of the tag
  associations, bookmarks and reports that refer to the opportunity go with it (the
  cascade that the comment of lines 544 to 546 describes).
\<close>

definition deleteOpportunityRows :: "string \<Rightarrow> database \<Rightarrow> database" where
  "deleteOpportunityRows opportunityId db =
     db\<lparr>opportunities := filter (\<lambda>r. ident r \<noteq> opportunityId) (opportunities db),
        opportunityTagAssociations :=
          filter (\<lambda>a. fst a \<noteq> opportunityId) (opportunityTagAssociations db),
        opportunityBookmarks := filter (\<lambda>b. fst b \<noteq> opportunityId) (opportunityBookmarks db),
        opportunityReports :=
          filter (\<lambda>r. reportedOpportunityId r \<noteq> opportunityId) (opportunityReports db)\<rparr>"

text \<open>
  \<^verbatim>\<open>selectFrom('opportunities').where('link', 'ilike', link).executeTakeFirst()\<close>
  (lines 84 to 87): the first row whose link matches the pattern; the statement fails
  where the pattern is rejected.
\<close>

definition selectOpportunityByLink :: "database \<Rightarrow> string \<Rightarrow> opportunity option outcome" where
  "selectOpportunityByLink db pattern =
     (if like_tokens (toLowerCase pattern) = None then Threw
      else Returned (find (\<lambda>r. ilike (link r) pattern = Some True) (opportunities db)))"

text \<open>
  Modelled from the spec: the key of the tag associations, which the table's declaration
  (not among the sources) fixes. The specification has a duplicate association silently
  ignored, so the key is the whole row, and
  \<^verbatim>\<open>insertInto(...).values(rows).onConflict((oc) => oc.doNothing())\<close> skips a row that
  is already there.
\<close>

fun insertIgnoringConflicts :: "'a list \<Rightarrow> 'a list \<Rightarrow> 'a list" where
  "insertIgnoringConflicts [] table = table"
| "insertIgnoringConflicts (x # xs) table =
     insertIgnoringConflicts xs (if x \<in> set table then table else table @ [x])"

section \<open>Refine Opportunity\<close>

text \<open>
  The transaction of lines 824 to 876; \<open>None\<close> when a statement in it throws, which
  rolls the transaction back. Three statements can throw:
  \<^item> the update of line 837 when \<^verbatim>\<open>new Date(data.expiresAt)\<close> is an invalid date,
    which the store does not accept as a timestamp;
  \<^item> \<^verbatim>\<open>executeTakeFirstOrThrow\<close> of line 841 when no row has the id;
  \<^item> the insert of lines 862 to 873 when no tag matched: \<^verbatim>\<open>values([])\<close> is an
    \<^verbatim>\<open>INSERT\<close> without rows, which the store rejects.
  The row returned is the one the first update returns, so its \<open>refinedAt\<close> is the
  value before line 847 sets it.
\<close>

definition refineTransaction ::
  "env \<Rightarrow> refineOpportunityResponse \<Rightarrow> string \<Rightarrow> database \<Rightarrow> (opportunity \<times> database) option" where
  "refineTransaction e data opportunityId db =
     (let company =
            (case ai_company data of
               None \<Rightarrow> None
             | Some c \<Rightarrow> if c = [] then None else saveCompanyIfNecessary e c);
          expires =
            (case ai_expiresAt data of
               None \<Rightarrow> Some None
             | Some d \<Rightarrow> if d = [] then Some None else map_option Some (Date_parse e d))
      in case expires of
           None \<Rightarrow> None
         | Some newExpiresAt \<Rightarrow>
             (let db1 =
                    updateOpportunities (\<lambda>r. ident r = opportunityId)
                      (\<lambda>r. r\<lparr>description :=
                                (case ai_description data of
                                   None \<Rightarrow> description r
                                 | Some d \<Rightarrow> if d = [] then description r else d),
                              title :=
                                (case ai_title data of
                                   None \<Rightarrow> title r
                                 | Some t \<Rightarrow> if t = [] then title r else t),
                              companyId := company,
                              expiresAt :=
                                (case newExpiresAt of
                                   None \<Rightarrow> expiresAt r
                                 | Some t \<Rightarrow> Some t)\<rparr>)
                      db
              in case find (\<lambda>r. ident r = opportunityId) (opportunities db1) of
                   None \<Rightarrow> None
                 | Some opp \<Rightarrow>
                     (let db2 =
                            updateOpportunities
                              (\<lambda>r. ident r = opportunityId \<and> refinedAt r = None)
                              (\<lambda>r. r\<lparr>refinedAt := Some (now e)\<rparr>)
                              db1
                      in case ai_tags data of
                           None \<Rightarrow> Some (opp, db2)
                         | Some tags \<Rightarrow>
                             (let matchedTags =
                                    filter (\<lambda>t. tagName t \<in> set tags) (opportunityTags db2)
                              in if matchedTags = [] then None
                                 else Some (opp,
                                   db2\<lparr>opportunityTagAssociations :=
                                     insertIgnoringConflicts
                                       (map (\<lambda>t. (ident opp, tagId t)) matchedTags)
                                       (opportunityTagAssociations db2)\<rparr>)))))"

text \<open>
  \<^verbatim>\<open>refineOpportunity\<close> (lines 756 to 896) with the input's \<^verbatim>\<open>content\<close>,
  \<^verbatim>\<open>opportunityId\<close>, \<^verbatim>\<open>slackChannelId\<close> and \<^verbatim>\<open>slackUserId\<close>. It returns the
  outcome, the store afterwards and the effects. The data of a success is \<open>None\<close> for
  \<^verbatim>\<open>success({})\<close> and the updated row for \<^verbatim>\<open>success(opportunity)\<close>. The catalog's
  tag names reach the client in the order of the store's collation.
\<close>

definition refineOpportunity ::
  "env \<Rightarrow> string \<Rightarrow> string \<Rightarrow> string option \<Rightarrow> string option \<Rightarrow> database
     \<Rightarrow> opportunity option result outcome \<times> database \<times> effect list" where
  "refineOpportunity e content opportunityId inputSlackChannelId inputSlackUserId db =
     (case getChatCompletion e content (map tagName (opportunityTags db)) of
        Fail code err \<Rightarrow> (Returned (Fail code err), db, [])
      | Success completion \<Rightarrow>
     (case JSON_parse e completion of
        None \<Rightarrow> (Returned (Fail 400 ''Failed to parse JSON from AI response.''), db, [])
      | Some parsed \<Rightarrow>
     (case RefineOpportunityResponse_parse parsed of
        None \<Rightarrow> (Returned (Fail 400 ''Failed to validate JSON from AI response.''), db, [])
      | Some data \<Rightarrow>
          if \<not> truthy (ai_title data) \<or> \<not> truthy (ai_description data) then
            (Returned (Success None), db,
             (case (inputSlackChannelId, inputSlackUserId) of
                (Some channel, Some user) \<Rightarrow>
                  if channel \<noteq> [] \<and> user \<noteq> []
                  then [RefinementNotification opportunityId channel user] else []
              | _ \<Rightarrow> []))
          else
            (case refineTransaction e data opportunityId db of
               None \<Rightarrow> (Threw, db, [])
             | Some (opp, db') \<Rightarrow>
                 (Returned (Success (Some opp)), db',
                  (case (slackChannelId opp, slackMessageId opp) of
                     (Some channel, Some message) \<Rightarrow>
                       if channel \<noteq> [] \<and> message \<noteq> [] \<and> refinedAt opp = None
                       then [AddedToBoardNotification channel message (ident opp)] else []
                   | _ \<Rightarrow> []))))))"

section \<open>Add Opportunity\<close>

text \<open>
  \<^verbatim>\<open>addOpportunity\<close> (lines 80 to 149). The call of \<^verbatim>\<open>refineOpportunity\<close> at line 143
  is awaited outside any \<^verbatim>\<open>try\<close>: its result is dropped, and a rejection of it is a
  rejection of \<^verbatim>\<open>addOpportunity\<close>.
\<close>

definition placeholder :: "env \<Rightarrow> string \<Rightarrow> string \<Rightarrow> opportunity" where
  "placeholder e newLink poster =
     \<lparr>ident = newId e, link = newLink, title = ''Opportunity'', description = ''N/A'',
      companyId = None, postedBy = Some poster, createdAt = now e,
      expiresAt = Some (oneMonthFromNow e), lastExpirationCheck = None, refinedAt = None,
      slackChannelId = None, slackMessageId = None\<rparr>"

definition addOpportunity ::
  "env \<Rightarrow> string \<Rightarrow> string \<Rightarrow> database \<Rightarrow> string result outcome \<times> database \<times> effect list" where
  "addOpportunity e newLink poster db =
     (case selectOpportunityByLink db newLink of
        Threw \<Rightarrow> (Threw, db, [])
      | Returned (Some existingOpportunity) \<Rightarrow>
          (Returned (Fail 409 ''Someone already posted this link.''), db, [])
      | Returned None \<Rightarrow>
          (let db1 = db\<lparr>opportunities := opportunities db @ [placeholder e newLink poster]\<rparr>;
               websiteContent = (case getPageContent e newLink of None \<Rightarrow> [] | Some c \<Rightarrow> c);
               fetched =
                 (case getPageContent e newLink of
                    None \<Rightarrow> [PageFetched newLink, ExceptionReported]
                  | Some c \<Rightarrow> [PageFetched newLink])
           in if websiteContent = [] then (Returned (Success (newId e)), db1, fetched)
              else if hasExpired websiteContent then
                (Returned
                   (Fail 404 ''It looks like the opportunity you are trying to add has closed.''),
                 deleteOpportunityRows (newId e) db1, fetched)
              else
                (case refineOpportunity e websiteContent (newId e) None None db1 of
                   (Threw, db2, effects) \<Rightarrow> (Threw, db2, fetched @ effects)
                 | (Returned refined, db2, effects) \<Rightarrow>
                     (Returned (Success (newId e)), db2, fetched @ effects))))"

section \<open>Bookmark Opportunity\<close>

text \<open>
  \<^verbatim>\<open>bookmarkOpportunity\<close> (lines 168 to 218). The transaction deletes the rows of the
  pair; when it deleted none it inserts one. After a creation the poster and the
  company name of the opportunity are read for the analytics event and the activity job.
\<close>

definition bookmarkOpportunity ::
  "string \<Rightarrow> string \<Rightarrow> database \<Rightarrow> unit result outcome \<times> database \<times> effect list" where
  "bookmarkOpportunity member opportunityId db =
     (let remaining = filter (\<lambda>b. b \<noteq> (opportunityId, member)) (opportunityBookmarks db);
          numDeletedRows = length (opportunityBookmarks db) - length remaining
      in if numDeletedRows \<noteq> 0 then
           (Returned (Success ()), db\<lparr>opportunityBookmarks := remaining\<rparr>, [])
         else
           (Returned (Success ()),
            db\<lparr>opportunityBookmarks := remaining @ [(opportunityId, member)]\<rparr>,
            (case find (\<lambda>r. ident r = opportunityId) (opportunities db) of
               None \<Rightarrow> []
             | Some opp \<Rightarrow>
                 (case companyId opp of
                    None \<Rightarrow> []
                  | Some cid \<Rightarrow>
                      (case find (\<lambda>c. companyIdent c = cid) (companies db) of
                         None \<Rightarrow> []
                       | Some c \<Rightarrow>
                           if companyName c \<noteq> []
                           then [Tracked ''Opportunity Bookmarked'' (companyName c) member]
                           else []))
                 @ (case postedBy opp of
                      None \<Rightarrow> []
                    | Some poster \<Rightarrow>
                        if poster \<noteq> [] then [ActivityCompleted member opportunityId poster]
                        else []))))"

section \<open>Check for an expired opportunity\<close>

text \<open>
  \<^verbatim>\<open>checkForExpiredOpportunity\<close> (lines 273 to 332). Three hours are 10800000
  milliseconds.
\<close>

definition threeHoursAgo :: "env \<Rightarrow> timestamp" where
  "threeHoursAgo e = now e - 3 * 60 * 60 * 1000"

definition selectedForCheck :: "env \<Rightarrow> string \<Rightarrow> bool \<Rightarrow> opportunity \<Rightarrow> bool" where
  "selectedForCheck e opportunityId force r \<longleftrightarrow>
     ident r = opportunityId
     \<and> (case expiresAt r of None \<Rightarrow> False | Some t \<Rightarrow> now e < t)
     \<and> (force
        \<or> (case lastExpirationCheck r of None \<Rightarrow> True | Some t \<Rightarrow> t \<le> threeHoursAgo e))"

definition checkForExpiredOpportunity ::
  "env \<Rightarrow> string \<Rightarrow> bool \<Rightarrow> database \<Rightarrow> bool result outcome \<times> database \<times> effect list" where
  "checkForExpiredOpportunity e opportunityId force db =
     (case find (selectedForCheck e opportunityId force) (opportunities db) of
        None \<Rightarrow> (Returned (Success False), db, [])
      | Some opp \<Rightarrow>
          if link opp = [] then (Returned (Success False), db, [])
          else
            (let db1 =
                   updateOpportunities (\<lambda>r. ident r = opportunityId)
                     (\<lambda>r. r\<lparr>lastExpirationCheck := Some (now e)\<rparr>) db
             in case getPageContent e (link opp) of
                  None \<Rightarrow>
                    (Returned (Fail 500 ''Failed to get page content.''), db1,
                     [PageFetched (link opp), ExceptionReported])
                | Some content \<Rightarrow>
                    (Returned (Success (hasExpired content)),
                     (if hasExpired content
                      then updateOpportunities (\<lambda>r. ident r = opportunityId)
                             (\<lambda>r. r\<lparr>expiresAt := Some (now e)\<rparr>) db1
                      else db1),
                     [PageFetched (link opp)])))"

section \<open>Delete Opportunity\<close>

text \<open>
  \<^verbatim>\<open>hasOpportunityWritePermission\<close> (lines 1137 to 1158): there is a row of the
  opportunity's id such that the member posted it or the member has an admin row whose
  \<^verbatim>\<open>deletedAt\<close> is null.
\<close>

definition isActiveAdmin :: "database \<Rightarrow> string \<Rightarrow> bool" where
  "isActiveAdmin db member = list_ex (\<lambda>a. memberId a = member \<and> deletedAt a = None) (admins db)"

definition hasOpportunityWritePermission :: "string \<Rightarrow> string \<Rightarrow> database \<Rightarrow> bool" where
  "hasOpportunityWritePermission member opportunityId db =
     (find (\<lambda>r. ident r = opportunityId \<and> (postedBy r = Some member \<or> isActiveAdmin db member))
        (opportunities db) \<noteq> None)"

text \<open>
  \<^verbatim>\<open>deleteOpportunity\<close> (lines 551 to 577); \<open>member\<close> is \<open>None\<close> when the input has no
  \<^verbatim>\<open>memberId\<close>. The test of line 555 is on the truthiness of the id.
\<close>

definition deleteOpportunity ::
  "string option \<Rightarrow> string \<Rightarrow> database \<Rightarrow> string result outcome \<times> database \<times> effect list" where
  "deleteOpportunity member opportunityId db =
     (case member of
        None \<Rightarrow> (Returned (Success opportunityId), deleteOpportunityRows opportunityId db, [])
      | Some m \<Rightarrow>
          if m \<noteq> [] \<and> \<not> hasOpportunityWritePermission m opportunityId db then
            (Returned (Fail 403 ''You do not have permission to delete this opportunity.''), db, [])
          else (Returned (Success opportunityId), deleteOpportunityRows opportunityId db, []))"

section \<open>Report Opportunity\<close>

text \<open>
  Modelled from the spec: the key of the reports table, which the table's declaration
  (not among the sources) fixes. The specification gives a report the composite identity
  of the opportunity and the reporter, so the insert of lines 922 to 926, which does
  nothing on a conflict, skips a second report of the same reporter.
\<close>

definition insertReport :: "opportunityReport \<Rightarrow> opportunityReport list \<Rightarrow> opportunityReport list" where
  "insertReport new table =
     (if list_ex (\<lambda>r. reportedOpportunityId r = reportedOpportunityId new
                      \<and> reporterId r = reporterId new) table
      then table else table @ [new])"

text \<open>
  \<^verbatim>\<open>reportOpportunity\<close> (lines 917 to 952). The admin lookup of lines 935 to 938 is on
  \<^verbatim>\<open>memberId\<close> alone.
\<close>

definition countReports :: "database \<Rightarrow> string \<Rightarrow> nat" where
  "countReports db opportunityId =
     length (filter (\<lambda>r. reportedOpportunityId r = opportunityId) (opportunityReports db))"

definition reportOpportunity ::
  "env \<Rightarrow> string \<Rightarrow> string \<Rightarrow> string \<Rightarrow> database \<Rightarrow> bool result outcome \<times> database \<times> effect list" where
  "reportOpportunity e opportunityId why reporter db =
     (let db1 =
            db\<lparr>opportunityReports :=
                 insertReport
                   \<lparr>reportedOpportunityId = opportunityId, reporterId = reporter, reason = why\<rparr>
                   (opportunityReports db)\<rparr>;
          reports = countReports db1 opportunityId;
          adminRow = find (\<lambda>a. memberId a = reporter) (admins db1);
          shouldRemove = (2 \<le> reports \<or> adminRow \<noteq> None)
      in (Returned (Success shouldRemove),
          (if shouldRemove
           then updateOpportunities (\<lambda>r. ident r = opportunityId)
                  (\<lambda>r. r\<lparr>expiresAt := Some (now e)\<rparr>) db1
           else db1),
          []))"

section \<open>Concrete stores and collaborators\<close>

text \<open>
  A store with one opportunity, one catalog tag, an active admin \<open>a1\<close> and an admin
  \<open>a2\<close> whose row is soft-deleted; collaborators whose page content and parsed
  completion are chosen by the caller.
\<close>

definition exampleOpportunity :: opportunity where
  "exampleOpportunity =
     \<lparr>ident = ''o1'', link = ''https://x.test/job'', title = ''Opportunity'',
      description = ''N/A'', companyId = None, postedBy = Some ''m1'', createdAt = 1000,
      expiresAt = Some 90000000, lastExpirationCheck = None, refinedAt = None,
      slackChannelId = None, slackMessageId = None\<rparr>"

definition exampleStore :: database where
  "exampleStore =
     \<lparr>opportunities = [exampleOpportunity],
      opportunityTags = [\<lparr>tagId = ''t1'', tagName = ''Internship'', tagColor = ''blue''\<rparr>],
      opportunityTagAssociations = [],
      opportunityBookmarks = [],
      opportunityReports = [],
      admins = [\<lparr>memberId = ''a1'', deletedAt = None\<rparr>, \<lparr>memberId = ''a2'', deletedAt = Some 500\<rparr>],
      companies = []\<rparr>"

definition exampleEnv :: "string option \<Rightarrow> json option \<Rightarrow> env" where
  "exampleEnv page parsed =
     \<lparr>now = 20000000, oneMonthFromNow = 2612000000, newId = ''o2'',
      getPageContent = (\<lambda>url. page),
      getChatCompletion = (\<lambda>content tagNames. Success ''completion''),
      JSON_parse = (\<lambda>text. parsed),
      Date_parse = (\<lambda>text. None),
      saveCompanyIfNecessary = (\<lambda>name. None)\<rparr>"

text \<open>A usable extraction, one whose only tag is not in the catalog, and a malformed one.\<close>

definition usableExtraction :: json where
  "usableExtraction =
     JObject [(''company'', JNull), (''description'', JString ''Build things''),
              (''expiresAt'', JNull), (''tags'', JArray [JString ''Internship'']),
              (''title'', JString ''Engineer'')]"

definition unknownTagExtraction :: json where
  "unknownTagExtraction =
     JObject [(''company'', JNull), (''description'', JString ''Build things''),
              (''expiresAt'', JNull), (''tags'', JArray [JString ''Robotics'']),
              (''title'', JString ''Engineer'')]"

definition malformedExtraction :: json where
  "malformedExtraction = JObject [(''title'', JNumber 1)]"

text \<open>A link with a backslash in its path, and a store that holds an opportunity of that link.\<close>

definition backslashLink :: string where
  "backslashLink = ''http://x.test/a'' @ [CHR 0x5C] @ ''b''"

definition backslashStore :: database where
  "backslashStore = exampleStore\<lparr>opportunities := [exampleOpportunity\<lparr>link := backslashLink\<rparr>]\<rparr>"


definition laterEnv :: env where
  "laterEnv = (exampleEnv None (Some usableExtraction))\<lparr>now := 30000000\<rparr>"

text \<open>
  The store after the usable extraction has refined \<open>o1\<close> at time 20000000; a store
  whose opportunity has already expired; one whose last check is exactly three hours
  before 20000000; and one whose last check is more recent.
\<close>

definition refinedStore :: database where
  "refinedStore =
     exampleStore\<lparr>opportunities :=
                    [exampleOpportunity\<lparr>title := ''Engineer'', description := ''Build things'',
                                         refinedAt := Some 20000000\<rparr>],
                  opportunityTagAssociations := [(''o1'', ''t1'')]\<rparr>"

definition expiredStore :: database where
  "expiredStore = exampleStore\<lparr>opportunities := [exampleOpportunity\<lparr>expiresAt := Some 5\<rparr>]\<rparr>"

definition boundaryStore :: database where
  "boundaryStore =
     exampleStore\<lparr>opportunities := [exampleOpportunity\<lparr>lastExpirationCheck := Some 9200000\<rparr>]\<rparr>"

definition recentStore :: database where
  "recentStore =
     exampleStore\<lparr>opportunities := [exampleOpportunity\<lparr>lastExpirationCheck := Some 19000000\<rparr>]\<rparr>"

text \<open>
  An extraction with six tags, the first of them in the catalog, and one whose
  \<^verbatim>\<open>expiresAt\<close> is a string that is not a date.
\<close>

definition sixTagExtraction :: json where
  "sixTagExtraction =
     JObject [(''company'', JNull), (''description'', JString ''Build things''),
              (''expiresAt'', JNull),
              (''tags'', JArray [JString ''Internship'', JString ''Fall'', JString ''Spring'',
                                 JString ''Winter'', JString ''Event'', JString ''Co-op'']),
              (''title'', JString ''Engineer'')]"

definition nonDateExtraction :: json where
  "nonDateExtraction =
     JObject [(''company'', JNull), (''description'', JString ''Build things''),
              (''expiresAt'', JString ''next spring''), (''tags'', JNull),
              (''title'', JString ''Engineer'')]"

section \<open>Facts about strings and lists\<close>

lemma startsWith_iff: "startsWith s sub \<longleftrightarrow> (\<exists>after. s = sub @ after)"
  by (induction s sub rule: startsWith.induct) auto

lemma includes_str_iff: "includes_str s sub \<longleftrightarrow> (\<exists>before after. s = before @ sub @ after)"
proof (induction s)
  case Nil
  then show ?case by auto
next
  case (Cons d s)
  show ?case
  proof
    assume "includes_str (d # s) sub"
    then consider "startsWith (d # s) sub" | "includes_str s sub" by auto
    then show "\<exists>before after. d # s = before @ sub @ after"
    proof cases
      case 1
      then obtain after where "d # s = sub @ after" by (auto simp: startsWith_iff)
      then have "d # s = [] @ sub @ after" by simp
      then show ?thesis by blast
    next
      case 2
      then obtain before after where "s = before @ sub @ after" using Cons.IH by auto
      then have "d # s = (d # before) @ sub @ after" by simp
      then show ?thesis by blast
    qed
  next
    assume "\<exists>before after. d # s = before @ sub @ after"
    then obtain before after where eq: "d # s = before @ sub @ after" by auto
    show "includes_str (d # s) sub"
    proof (cases before)
      case Nil
      with eq have "startsWith (d # s) sub" by (auto simp: startsWith_iff)
      then show ?thesis by simp
    next
      case (Cons b bs)
      with eq have "s = bs @ sub @ after" by simp
      then have "includes_str s sub" using Cons.IH by blast
      then show ?thesis by simp
    qed
  qed
qed

lemma phrases_lower: "map toLowerCase EXPIRED_PHRASES = EXPIRED_PHRASES"
  by (simp add: EXPIRED_PHRASES_def toLowerCase_def toLowerChar_def)

lemma phrase_lower:
  assumes "phrase \<in> set EXPIRED_PHRASES"
  shows "toLowerCase phrase = phrase"
proof -
  from assms obtain i where i: "i < length EXPIRED_PHRASES" "EXPIRED_PHRASES ! i = phrase"
    by (auto simp: in_set_conv_nth)
  then have "map toLowerCase EXPIRED_PHRASES ! i = toLowerCase phrase" by simp
  with i show ?thesis by (simp add: phrases_lower)
qed

text \<open>The scan of the source is the containment the specification words.\<close>

lemma hasExpired_iff: "hasExpired content \<longleftrightarrow> containsExpiredPhrase content"
  unfolding hasExpired_def containsExpiredPhrase_def list_ex_iff includes_str_iff
  by (auto simp: phrase_lower)

lemma hasExpired_nonempty: "hasExpired content \<Longrightarrow> content \<noteq> []"
  by (auto simp: hasExpired_def EXPIRED_PHRASES_def toLowerCase_def)

lemma find_weaker:
  "find P xs = Some r \<Longrightarrow> Q r \<Longrightarrow> (\<And>x. Q x \<Longrightarrow> P x) \<Longrightarrow> find Q xs = Some r"
  by (induction xs) (auto split: if_splits)

lemma numDeleted_iff:
  "length xs - length (filter (\<lambda>b. b \<noteq> p) xs) \<noteq> 0 \<longleftrightarrow> p \<in> set xs"
proof -
  have "length (filter (\<lambda>b. b \<noteq> p) xs) < length xs \<longleftrightarrow> p \<in> set xs"
    by (induction xs) (auto simp: less_Suc_eq_le)
  then show ?thesis by auto
qed

lemma count_filter_neq:
  "count_list (filter (\<lambda>b. b \<noteq> p) xs) q = (if q = p then 0 else count_list xs q)"
  by (induction xs) auto

section \<open>Facts about the operations\<close>

lemma bookmarks_after:
  "opportunityBookmarks (fst (snd (bookmarkOpportunity m oid db))) =
     (if (oid, m) \<in> set (opportunityBookmarks db)
      then filter (\<lambda>b. b \<noteq> (oid, m)) (opportunityBookmarks db)
      else opportunityBookmarks db @ [(oid, m)])"
proof -
  have "(oid, m) \<notin> set (opportunityBookmarks db) \<Longrightarrow>
        filter (\<lambda>b. b \<noteq> (oid, m)) (opportunityBookmarks db) = opportunityBookmarks db"
    by (auto simp: filter_id_conv)
  then show ?thesis
    unfolding bookmarkOpportunity_def Let_def
    using numDeleted_iff[of "opportunityBookmarks db" "(oid, m)"]
    by auto
qed

text \<open>What a committed transaction of the refinement does to each row.\<close>

lemma refineTransaction_rows:
  assumes "refineTransaction e data oid db = Some (opp, db')"
  shows "list_all2
           (\<lambda>r r'. ident r' = ident r
              \<and> (if ident r = oid then
                    refinedAt r' = (if refinedAt r = None then Some (now e) else refinedAt r)
                  \<and> title r' =
                      (case ai_title data of
                         None \<Rightarrow> title r
                       | Some t \<Rightarrow> if t = [] then title r else t)
                  \<and> description r' =
                      (case ai_description data of
                         None \<Rightarrow> description r
                       | Some d \<Rightarrow> if d = [] then description r else d)
                  \<and> companyId r' =
                      (case ai_company data of
                         None \<Rightarrow> None
                       | Some c \<Rightarrow> if c = [] then None else saveCompanyIfNecessary e c)
                  \<and> (ai_expiresAt data = None \<longrightarrow> expiresAt r' = expiresAt r)
                  \<and> link r' = link r \<and> postedBy r' = postedBy r \<and> createdAt r' = createdAt r
                  \<and> lastExpirationCheck r' = lastExpirationCheck r
                  \<and> slackChannelId r' = slackChannelId r \<and> slackMessageId r' = slackMessageId r
                  else r' = r))
           (opportunities db) (opportunities db')"
  using assms
  unfolding refineTransaction_def Let_def updateOpportunities_def
  by (auto simp: list_all2_map2 list_all2_same split: option.splits if_splits)

text \<open>
  A call of \<^verbatim>\<open>refineOpportunity\<close> either leaves the store as it is and does not return
  a refined opportunity, or commits the transaction and returns its row.
\<close>

lemma refineOpportunity_cases:
  assumes "refineOpportunity e content oid ch us db = (res, db', fx)"
  shows "db' = db \<and> (\<forall>opp. res \<noteq> Returned (Success (Some opp)))
       \<or> (\<exists>completion parsed data opp.
            getChatCompletion e content (map tagName (opportunityTags db)) = Success completion
          \<and> JSON_parse e completion = Some parsed
          \<and> RefineOpportunityResponse_parse parsed = Some data
          \<and> truthy (ai_title data) \<and> truthy (ai_description data)
          \<and> refineTransaction e data oid db = Some (opp, db')
          \<and> res = Returned (Success (Some opp)))"
  using assms unfolding refineOpportunity_def
  by (auto split: result.splits option.splits if_splits prod.splits)

lemma refineOpportunity_refinedAt_step:
  assumes "refineOpportunity e content oid ch us db = (res, db', fx)"
  shows "list_all2
           (\<lambda>r r'. ident r' = ident r
              \<and> (refinedAt r \<noteq> None \<longrightarrow> refinedAt r' = refinedAt r)
              \<and> (refinedAt r' \<noteq> refinedAt r \<longrightarrow>
                   ident r = oid \<and> refinedAt r' = Some (now e)
                   \<and> (\<exists>opp. res = Returned (Success (Some opp))))
              \<and> ((\<exists>opp. res = Returned (Success (Some opp))) \<and> ident r = oid \<longrightarrow>
                   refinedAt r' \<noteq> None))
           (opportunities db) (opportunities db')"
proof -
  from refineOpportunity_cases[OF assms] show ?thesis
  proof (elim disjE exE conjE)
    assume "db' = db" "\<forall>opp. res \<noteq> Returned (Success (Some opp))"
    then show ?thesis by (simp add: list_all2_same)
  next
    fix completion parsed data opp
    assume tx: "refineTransaction e data oid db = Some (opp, db')"
       and res: "res = Returned (Success (Some opp))"
    show ?thesis
      by (rule list_all2_mono[OF refineTransaction_rows[OF tx]]) (auto simp: res split: if_splits)
  qed
qed




lemma toLowerChar_backslash: "toLowerChar c = CHR 0x5C \<longleftrightarrow> c = CHR 0x5C"
proof (cases "map_of (zip ''ABCDEFGHIJKLMNOPQRSTUVWXYZ'' ''abcdefghijklmnopqrstuvwxyz'') c")
  case None
  then show ?thesis by (simp add: toLowerChar_def)
next
  case (Some d)
  then have "(c, d) \<in> set (zip ''ABCDEFGHIJKLMNOPQRSTUVWXYZ'' ''abcdefghijklmnopqrstuvwxyz'')"
    by (rule map_of_SomeD)
  then have "c \<noteq> CHR 0x5C \<and> d \<noteq> CHR 0x5C" by auto
  with Some show ?thesis by (simp add: toLowerChar_def)
qed

lemma like_matches_run: "like_matches ts s \<Longrightarrow> like_matches (AnyRun # ts) s"
  by (cases s) auto

lemma like_self:
  "CHR 0x5C \<notin> set s \<Longrightarrow> \<exists>ts. like_tokens s = Some ts \<and> like_matches ts s"
proof (induction s)
  case Nil
  then show ?case by simp
next
  case (Cons c s)
  then obtain ts where ts: "like_tokens s = Some ts" "like_matches ts s" by auto
  from Cons.prems have "c \<noteq> CHR 0x5C" by auto
  with ts show ?case by (auto intro: like_matches_run)
qed

lemma notin_map: "(\<And>c. c \<in> set xs \<Longrightarrow> f c \<noteq> b) \<Longrightarrow> b \<notin> set (map f xs)"
  by auto

lemma ilike_self:
  assumes "CHR 0x5C \<notin> set pattern" and "toLowerCase v = toLowerCase pattern"
  shows "ilike v pattern = Some True"
proof -
  have "toLowerChar c \<noteq> CHR 0x5C" if "c \<in> set pattern" for c
    using that assms(1) toLowerChar_backslash by metis
  then have "CHR 0x5C \<notin> set (toLowerCase pattern)"
    unfolding toLowerCase_def by (rule notin_map)
  from like_self[OF this] assms(2) show ?thesis by (auto simp: ilike_def)
qed

text \<open>
  The duplicate check does find an opportunity of the same link, compared without regard
  to case, when the submitted link has no backslash: the link, read as a pattern,
  matches itself.
\<close>

lemma duplicate_link_without_backslash_conflicts:
  assumes plain: "CHR 0x5C \<notin> set newLink"
      and present: "r \<in> set (opportunities db)"
      and same: "toLowerCase (link r) = toLowerCase newLink"
  shows "addOpportunity e newLink poster db =
           (Returned (Fail 409 ''Someone already posted this link.''), db, [])"
proof -
  have tokens: "like_tokens (toLowerCase newLink) \<noteq> None"
    using ilike_self[OF plain same] by (auto simp: ilike_def)
  have "find (\<lambda>r. ilike (link r) newLink = Some True) (opportunities db) \<noteq> None"
    using present ilike_self[OF plain same] by (auto simp: find_None_iff)
  then obtain existing where
    "find (\<lambda>r. ilike (link r) newLink = Some True) (opportunities db) = Some existing"
    by auto
  with tokens show ?thesis
    by (simp add: addOpportunity_def selectOpportunityByLink_def)
qed

text \<open>
  When the refinement returns, with whatever result, the submission of a link that passed
  the duplicate check and whose page has no expired phrase succeeds with the new id.
\<close>

lemma submission_succeeds_when_refinement_returns:
  assumes unique: "selectOpportunityByLink db newLink = Returned None"
      and live: "\<And>content. getPageContent e newLink = Some content \<Longrightarrow> \<not> hasExpired content"
      and returns:
        "\<And>content db1 db2 effects.
           refineOpportunity e content (newId e) None None db1 \<noteq> (Threw, db2, effects)"
  shows "fst (addOpportunity e newLink poster db) = Returned (Success (newId e))"
  using unique live returns unfolding addOpportunity_def Let_def
  by (auto split: option.splits prod.splits outcome.splits)

text \<open>
  What \<^verbatim>\<open>reportOpportunity\<close> returns as \<^verbatim>\<open>removed\<close>: the opportunity has two reports or
  more once the report is recorded, or the reporter has an admin row, soft-deleted or not.
\<close>

lemma reportOpportunity_removes_iff:
  assumes "reportOpportunity e oid why reporter db = (res, db', fx)"
  shows "res = Returned (Success
           (2 \<le> countReports
                  (db\<lparr>opportunityReports :=
                        insertReport
                          \<lparr>reportedOpportunityId = oid, reporterId = reporter, reason = why\<rparr>
                          (opportunityReports db)\<rparr>) oid
            \<or> list_ex (\<lambda>a. memberId a = reporter) (admins db)))"
  using assms unfolding reportOpportunity_def Let_def
  by (auto simp: find_None_iff list_ex_iff)

lemma nullableTrimmedString_None:
  "nullableTrimmedString mx v = None \<longleftrightarrow>
     \<not> nullableStringField
          (\<lambda>s. trim s \<noteq> [] \<and> (case mx of None \<Rightarrow> True | Some m \<Rightarrow> length (trim s) \<le> m)) v"
proof (cases v)
  case None
  then show ?thesis by (simp add: nullableStringField_def)
next
  case (Some j)
  then show ?thesis
    by (cases j) (auto simp: nullableStringField_def Suc_le_eq)
qed

lemma nullableString_None:
  "nullableString v = None \<longleftrightarrow> \<not> nullableStringField (\<lambda>s. True) v"
proof (cases v)
  case None
  then show ?thesis by (simp add: nullableStringField_def)
next
  case (Some j)
  then show ?thesis by (cases j) (auto simp: nullableStringField_def)
qed

lemma trimmedStrings_None: "trimmedStrings js = None \<longleftrightarrow> \<not> list_all nonEmptyString js"
proof (induction js)
  case Nil
  then show ?case by simp
next
  case (Cons j js)
  then show ?case by (cases j) (auto simp: nonEmptyString_def Suc_le_eq)
qed

lemma nullableTags_None: "nullableTags v = None \<longleftrightarrow> \<not> nullableTagList v"
proof (cases v)
  case None
  then show ?thesis by (simp add: nullableTagList_def)
next
  case (Some j)
  then show ?thesis
    by (cases j) (auto simp: nullableTagList_def trimmedStrings_None Suc_le_eq)
qed

text \<open>The schema of the source rejects exactly the values that the property does not hold of.\<close>

lemma schema_rejects_iff: "RefineOpportunityResponse_parse j = None \<longleftrightarrow> \<not> acceptedBySchema j"
proof (cases j)
  case (JObject members)
  have "RefineOpportunityResponse_parse (JObject members) = None \<longleftrightarrow>
          nullableTrimmedString None (map_of members ''company'') = None
        \<or> nullableTrimmedString (Some 500) (map_of members ''description'') = None
        \<or> nullableString (map_of members ''expiresAt'') = None
        \<or> nullableTags (map_of members ''tags'') = None
        \<or> nullableTrimmedString (Some 100) (map_of members ''title'') = None"
    by (simp split: option.splits)
  then show ?thesis
    unfolding JObject
    by (auto simp: acceptedBySchema_def nullableTrimmedString_None nullableString_None
          nullableTags_None)
qed (simp_all add: acceptedBySchema_def)


section \<open>Evaluations on the concrete stores\<close>

lemma parse_usable:
  "RefineOpportunityResponse_parse usableExtraction =
     Some \<lparr>ai_company = None, ai_description = Some ''Build things'', ai_expiresAt = None,
           ai_tags = Some [''Internship''], ai_title = Some ''Engineer''\<rparr>"
  by (simp add: usableExtraction_def trim_def isWhiteSpace_def)

lemma parse_unknownTag:
  "RefineOpportunityResponse_parse unknownTagExtraction =
     Some \<lparr>ai_company = None, ai_description = Some ''Build things'', ai_expiresAt = None,
           ai_tags = Some [''Robotics''], ai_title = Some ''Engineer''\<rparr>"
  by (simp add: unknownTagExtraction_def trim_def isWhiteSpace_def)


lemma parse_malformed: "RefineOpportunityResponse_parse malformedExtraction = None"
  by (simp add: malformedExtraction_def)

lemma first_refine:
  "refineOpportunity (exampleEnv None (Some usableExtraction)) ''text'' ''o1'' None None
     exampleStore =
     (Returned (Success (Some (exampleOpportunity\<lparr>title := ''Engineer'',
                                                   description := ''Build things''\<rparr>))),
      refinedStore, [])"
  by (simp add: refineOpportunity_def refineTransaction_def updateOpportunities_def Let_def
        parse_usable exampleEnv_def exampleStore_def exampleOpportunity_def refinedStore_def)

lemma second_refine:
  "refineOpportunity laterEnv ''text'' ''o1'' None None refinedStore =
     (Returned (Success (Some (exampleOpportunity\<lparr>title := ''Engineer'',
                                                   description := ''Build things'',
                                                   refinedAt := Some 20000000\<rparr>))),
      refinedStore, [])"
  by (simp add: refineOpportunity_def refineTransaction_def updateOpportunities_def Let_def
        parse_usable laterEnv_def exampleEnv_def exampleStore_def exampleOpportunity_def
        refinedStore_def)


lemma select_closed:
  "selectOpportunityByLink exampleStore ''https://x.test/closed'' = Returned None"
  by (simp add: selectOpportunityByLink_def ilike_def toLowerCase_def toLowerChar_def
        exampleStore_def exampleOpportunity_def)

lemma select_other:
  "selectOpportunityByLink exampleStore ''https://x.test/other'' = Returned None"
  by (simp add: selectOpportunityByLink_def ilike_def toLowerCase_def toLowerChar_def
        exampleStore_def exampleOpportunity_def)

lemma select_backslash: "selectOpportunityByLink backslashStore backslashLink = Returned None"
  by (simp add: selectOpportunityByLink_def ilike_def toLowerCase_def toLowerChar_def
        exampleStore_def exampleOpportunity_def backslashStore_def backslashLink_def)

lemma expired_content: "hasExpired ''This posting has Expired''"
  by (simp add: hasExpired_def EXPIRED_PHRASES_def toLowerCase_def toLowerChar_def)

lemma live_content: "\<not> hasExpired ''Senior Engineer... apply now''"
  by (simp add: hasExpired_def EXPIRED_PHRASES_def toLowerCase_def toLowerChar_def)

lemma check_recent:
  "checkForExpiredOpportunity (exampleEnv (Some ''Senior Engineer... apply now'') None)
     ''o1'' False recentStore =
     (Returned (Success False), recentStore, [])"
  by (simp add: checkForExpiredOpportunity_def selectedForCheck_def threeHoursAgo_def
        exampleEnv_def recentStore_def exampleStore_def exampleOpportunity_def)

lemma check_forced:
  "checkForExpiredOpportunity (exampleEnv (Some ''Senior Engineer... apply now'') None)
     ''o1'' True recentStore =
     (Returned (Success False),
      exampleStore\<lparr>opportunities :=
                     [exampleOpportunity\<lparr>lastExpirationCheck := Some 20000000\<rparr>]\<rparr>,
      [PageFetched ''https://x.test/job''])"
  by (simp add: checkForExpiredOpportunity_def selectedForCheck_def threeHoursAgo_def
        live_content updateOpportunities_def Let_def
        exampleEnv_def recentStore_def exampleStore_def exampleOpportunity_def)

section \<open>The claims\<close>

text \<open>
  Claim C1. The refinement sets \<open>refinedAt\<close> from null to a timestamp at most once.
  For two calls of \<^verbatim>\<open>refineOpportunity\<close> on the same opportunity id, one after the
  other, with any collaborators and any content: each call keeps the id of every row;
  it leaves a \<open>refinedAt\<close> that is not null as it is; where it changes \<open>refinedAt\<close>, the
  row is the opportunity of the call, the new value is the time of the call and the call
  returned the refined opportunity (a successful enrichment); and once the first call has
  returned the refined opportunity, the second call leaves the \<open>refinedAt\<close> of that
  opportunity unchanged.
\<close>

theorem refinedAt_set_at_most_once:
  assumes first: "refineOpportunity e1 content1 oid ch1 us1 db = (res1, db1, fx1)"
      and second: "refineOpportunity e2 content2 oid ch2 us2 db1 = (res2, db2, fx2)"
  shows "list_all2
           (\<lambda>r r'. ident r' = ident r
              \<and> (refinedAt r \<noteq> None \<longrightarrow> refinedAt r' = refinedAt r)
              \<and> (refinedAt r' \<noteq> refinedAt r \<longrightarrow>
                   ident r = oid \<and> refinedAt r' = Some (now e1)
                   \<and> (\<exists>opp. res1 = Returned (Success (Some opp))))
              \<and> ((\<exists>opp. res1 = Returned (Success (Some opp))) \<and> ident r = oid \<longrightarrow>
                   refinedAt r' \<noteq> None))
           (opportunities db) (opportunities db1)
       \<and> list_all2
           (\<lambda>r r'. ident r' = ident r
              \<and> (refinedAt r \<noteq> None \<longrightarrow> refinedAt r' = refinedAt r)
              \<and> (refinedAt r' \<noteq> refinedAt r \<longrightarrow>
                   ident r = oid \<and> refinedAt r' = Some (now e2)
                   \<and> (\<exists>opp. res2 = Returned (Success (Some opp))))
              \<and> ((\<exists>opp. res1 = Returned (Success (Some opp))) \<and> ident r = oid \<longrightarrow>
                   refinedAt r' = refinedAt r))
           (opportunities db1) (opportunities db2)"
proof
  show one: "list_all2
           (\<lambda>r r'. ident r' = ident r
              \<and> (refinedAt r \<noteq> None \<longrightarrow> refinedAt r' = refinedAt r)
              \<and> (refinedAt r' \<noteq> refinedAt r \<longrightarrow>
                   ident r = oid \<and> refinedAt r' = Some (now e1)
                   \<and> (\<exists>opp. res1 = Returned (Success (Some opp))))
              \<and> ((\<exists>opp. res1 = Returned (Success (Some opp))) \<and> ident r = oid \<longrightarrow>
                   refinedAt r' \<noteq> None))
           (opportunities db) (opportunities db1)"
    by (rule refineOpportunity_refinedAt_step[OF first])
  have refined: "refinedAt r' \<noteq> None"
    if "r' \<in> set (opportunities db1)" "ident r' = oid" "res1 = Returned (Success (Some opp))"
    for r' opp
  proof -
    from that(1) obtain i where i: "i < length (opportunities db1)" "opportunities db1 ! i = r'"
      by (auto simp: in_set_conv_nth)
    from list_all2_nthD2[OF one i(1)] i(2) that(2,3) show ?thesis by auto
  qed
  show "list_all2
           (\<lambda>r r'. ident r' = ident r
              \<and> (refinedAt r \<noteq> None \<longrightarrow> refinedAt r' = refinedAt r)
              \<and> (refinedAt r' \<noteq> refinedAt r \<longrightarrow>
                   ident r = oid \<and> refinedAt r' = Some (now e2)
                   \<and> (\<exists>opp. res2 = Returned (Success (Some opp))))
              \<and> ((\<exists>opp. res1 = Returned (Success (Some opp))) \<and> ident r = oid \<longrightarrow>
                   refinedAt r' = refinedAt r))
           (opportunities db1) (opportunities db2)"
    by (rule list.rel_mono_strong[OF refineOpportunity_refinedAt_step[OF second]])
       (use refined in blast)
qed

text \<open>
  The opportunity \<open>o1\<close> is refined at 20000000 and again at 30000000, both times from
  the usable extraction: \<open>refinedAt\<close> goes from null to 20000000 and stays there.
\<close>

theorem refinedAt_set_at_most_once_witness:
  "refineOpportunity (exampleEnv None (Some usableExtraction)) ''text'' ''o1'' None None
     exampleStore =
     (Returned (Success (Some (exampleOpportunity\<lparr>title := ''Engineer'',
                                                   description := ''Build things''\<rparr>))),
      refinedStore, [])
   \<and> refineOpportunity laterEnv ''text'' ''o1'' None None refinedStore =
     (Returned (Success (Some (exampleOpportunity\<lparr>title := ''Engineer'',
                                                   description := ''Build things'',
                                                   refinedAt := Some 20000000\<rparr>))),
      refinedStore, [])
   \<and> now laterEnv = 30000000
   \<and> map refinedAt (opportunities exampleStore) = [None]
   \<and> map refinedAt (opportunities refinedStore) = [Some 20000000]
   \<and> list_all2 (\<lambda>r r'. ident r' = ident r \<and> refinedAt r' = refinedAt r)
       (opportunities refinedStore) (opportunities refinedStore)"
proof -
  have "list_all2 (\<lambda>r r'. ident r' = ident r \<and> refinedAt r' = refinedAt r)
       (opportunities refinedStore) (opportunities refinedStore)"
    by (rule list.rel_mono_strong[OF
          conjunct2[OF refinedAt_set_at_most_once[OF first_refine second_refine]]])
       (simp add: refinedStore_def exampleOpportunity_def)
  then show ?thesis
    using first_refine second_refine
    by (simp add: laterEnv_def exampleEnv_def refinedStore_def exampleStore_def
          exampleOpportunity_def)
qed

lemma add_unknown_tag:
  "addOpportunity (exampleEnv (Some ''Senior Engineer... apply now'') (Some unknownTagExtraction))
     ''https://x.test/other'' ''m2'' exampleStore =
   (Threw,
    exampleStore\<lparr>opportunities :=
      [exampleOpportunity,
       placeholder (exampleEnv (Some ''Senior Engineer... apply now'') (Some unknownTagExtraction))
         ''https://x.test/other'' ''m2'']\<rparr>,
    [PageFetched ''https://x.test/other''])"
  unfolding addOpportunity_def select_other
  by (simp add: live_content Let_def
        refineOpportunity_def refineTransaction_def updateOpportunities_def parse_unknownTag
        exampleEnv_def exampleStore_def exampleOpportunity_def placeholder_def)

text \<open>
  Claim C2. A report removes the opportunity exactly when, after the report is recorded,
  the opportunity has two reports or more or the reporter is an \<^emph>\<open>active\<close> admin. The
  code looks the reporter up in the admins by \<^verbatim>\<open>memberId\<close> alone (lines 935 to 938),
  where \<^verbatim>\<open>hasOpportunityWritePermission\<close> also asks that \<^verbatim>\<open>deletedAt\<close> is null. The
  theorem runs the first report on \<open>o1\<close>, made by \<open>a2\<close> whose admin row is soft-deleted:
  the result is \<^verbatim>\<open>removed: true\<close> and the opportunity expires at the time of the call,
  although one report is recorded and \<open>a2\<close> is not an active admin.
\<close>

theorem report_by_soft_deleted_admin_removes:
  "reportOpportunity (exampleEnv None None) ''o1'' ''dead link'' ''a2'' exampleStore =
     (Returned (Success True),
      exampleStore\<lparr>opportunities := [exampleOpportunity\<lparr>expiresAt := Some 20000000\<rparr>],
                   opportunityReports :=
                     [\<lparr>reportedOpportunityId = ''o1'', reporterId = ''a2'',
                       reason = ''dead link''\<rparr>]\<rparr>,
      [])
   \<and> \<not> isActiveAdmin exampleStore ''a2''
   \<and> countReports
        (exampleStore\<lparr>opportunityReports :=
                        [\<lparr>reportedOpportunityId = ''o1'', reporterId = ''a2'',
                          reason = ''dead link''\<rparr>]\<rparr>)
        ''o1'' = 1"
  by (simp add: reportOpportunity_def insertReport_def countReports_def isActiveAdmin_def
        updateOpportunities_def Let_def exampleEnv_def exampleStore_def exampleOpportunity_def)

text \<open>
  Claim C3. When the duplicate check lets the link through, the page is fetched and its
  content contains, without regard to case, one of the expired phrases, then
  \<^verbatim>\<open>addOpportunity\<close> fails with 404 after deleting the placeholder it inserted: the store
  afterwards has no opportunity of the new id, and its opportunities are those of before
  (less any row that had the new id).
\<close>

theorem expired_link_is_deleted_and_not_found:
  assumes unique: "selectOpportunityByLink db newLink = Returned None"
      and fetched: "getPageContent e newLink = Some content"
      and expired: "containsExpiredPhrase content"
  shows "\<exists>db'. addOpportunity e newLink poster db =
           (Returned (Fail 404 ''It looks like the opportunity you are trying to add has closed.''),
            db', [PageFetched newLink])
         \<and> db' = deleteOpportunityRows (newId e)
                   (db\<lparr>opportunities := opportunities db @ [placeholder e newLink poster]\<rparr>)
         \<and> (\<forall>r \<in> set (opportunities db'). ident r \<noteq> newId e)
         \<and> opportunities db' = filter (\<lambda>r. ident r \<noteq> newId e) (opportunities db)"
proof -
  have h: "hasExpired content" using expired by (simp add: hasExpired_iff)
  then have ne: "content \<noteq> []" by (rule hasExpired_nonempty)
  show ?thesis
    using unique fetched h ne
    by (simp add: addOpportunity_def Let_def deleteOpportunityRows_def placeholder_def)
qed

text \<open>
  The link \<^verbatim>\<open>https://x.test/closed\<close> is new to the store and its page reads
  \<^verbatim>\<open>This posting has Expired\<close>: the submission fails with 404 and the store is as before.
\<close>

theorem expired_link_is_deleted_and_not_found_witness:
  "selectOpportunityByLink exampleStore ''https://x.test/closed'' = Returned None
   \<and> containsExpiredPhrase ''This posting has Expired''
   \<and> addOpportunity (exampleEnv (Some ''This posting has Expired'') None)
        ''https://x.test/closed'' ''m2'' exampleStore =
      (Returned (Fail 404 ''It looks like the opportunity you are trying to add has closed.''),
       exampleStore, [PageFetched ''https://x.test/closed''])"
proof -
  have fetched: "getPageContent (exampleEnv (Some ''This posting has Expired'') None)
                   ''https://x.test/closed'' = Some ''This posting has Expired''"
    by (simp add: exampleEnv_def)
  have expired: "containsExpiredPhrase ''This posting has Expired''"
    using expired_content by (simp add: hasExpired_iff)
  from expired_link_is_deleted_and_not_found[OF select_closed fetched expired, of "''m2''"]
  have "addOpportunity (exampleEnv (Some ''This posting has Expired'') None)
        ''https://x.test/closed'' ''m2'' exampleStore =
      (Returned (Fail 404 ''It looks like the opportunity you are trying to add has closed.''),
       exampleStore, [PageFetched ''https://x.test/closed''])"
    by (simp add: deleteOpportunityRows_def placeholder_def exampleEnv_def exampleStore_def
          exampleOpportunity_def)
  with select_closed expired show ?thesis by simp
qed

text \<open>
  Claim C4. A link that an opportunity of the store already has, compared without regard
  to case, is refused with 409 and no row is inserted. The duplicate check passes the
  submitted link to \<^verbatim>\<open>ilike\<close> as a pattern (line 86), so a backslash in the link
  escapes the character after it. The theorem submits \<^verbatim>\<open>http://x.test/a\b\<close> to a store
  whose only opportunity has exactly that link: the check finds no row, the submission
  succeeds, and the store then holds two opportunities of the same link.
\<close>

theorem duplicate_link_with_backslash_is_inserted:
  "map link (opportunities backslashStore) = [backslashLink]
   \<and> selectOpportunityByLink backslashStore backslashLink = Returned None
   \<and> addOpportunity (exampleEnv None None) backslashLink ''m2'' backslashStore =
      (Returned (Success ''o2''),
       backslashStore\<lparr>opportunities :=
         [exampleOpportunity\<lparr>link := backslashLink\<rparr>,
          placeholder (exampleEnv None None) backslashLink ''m2'']\<rparr>,
       [PageFetched backslashLink, ExceptionReported])
   \<and> link (placeholder (exampleEnv None None) backslashLink ''m2'') = backslashLink"
proof -
  have "addOpportunity (exampleEnv None None) backslashLink ''m2'' backslashStore =
      (Returned (Success ''o2''),
       backslashStore\<lparr>opportunities :=
         [exampleOpportunity\<lparr>link := backslashLink\<rparr>,
          placeholder (exampleEnv None None) backslashLink ''m2'']\<rparr>,
       [PageFetched backslashLink, ExceptionReported])"
    unfolding addOpportunity_def select_backslash
    by (simp add: Let_def exampleEnv_def backslashStore_def)
  then show ?thesis
    using select_backslash by (simp add: backslashStore_def placeholder_def)
qed

text \<open>
  Claim C5. A link that passes the duplicate check and whose page has no expired phrase
  is submitted with success whatever the refinement does. \<^verbatim>\<open>addOpportunity\<close> awaits
  \<^verbatim>\<open>refineOpportunity\<close> outside any \<^verbatim>\<open>try\<close> (lines 143 to 146), so a rejection of the
  refinement is a rejection of the submission. The theorem submits a new link whose page
  is live and whose extraction is usable but names only a tag that the catalog does not
  have: the transaction of the refinement throws at its insert, and
  \<^verbatim>\<open>addOpportunity\<close> throws, leaving the placeholder in the store.
\<close>

theorem submission_throws_when_refinement_throws:
  "selectOpportunityByLink exampleStore ''https://x.test/other'' = Returned None
   \<and> \<not> hasExpired ''Senior Engineer... apply now''
   \<and> addOpportunity
        (exampleEnv (Some ''Senior Engineer... apply now'') (Some unknownTagExtraction))
        ''https://x.test/other'' ''m2'' exampleStore =
      (Threw,
       exampleStore\<lparr>opportunities :=
         [exampleOpportunity,
          placeholder
            (exampleEnv (Some ''Senior Engineer... apply now'') (Some unknownTagExtraction))
            ''https://x.test/other'' ''m2'']\<rparr>,
       [PageFetched ''https://x.test/other''])"
  using select_other live_content add_unknown_tag by simp





lemma check_expired_forced:
  "checkForExpiredOpportunity (exampleEnv (Some ''Senior Engineer... apply now'') None)
     ''o1'' True expiredStore =
     (Returned (Success False), expiredStore, [])"
  by (simp add: checkForExpiredOpportunity_def selectedForCheck_def threeHoursAgo_def
        exampleEnv_def expiredStore_def exampleStore_def exampleOpportunity_def)

lemma check_boundary:
  "checkForExpiredOpportunity (exampleEnv (Some ''Senior Engineer... apply now'') None)
     ''o1'' False boundaryStore =
     (Returned (Success False),
      exampleStore\<lparr>opportunities :=
                     [exampleOpportunity\<lparr>lastExpirationCheck := Some 20000000\<rparr>]\<rparr>,
      [PageFetched ''https://x.test/job''])"
  by (simp add: checkForExpiredOpportunity_def selectedForCheck_def threeHoursAgo_def
        live_content updateOpportunities_def Let_def
        exampleEnv_def boundaryStore_def exampleStore_def exampleOpportunity_def)

text \<open>
  Claim C7, as amended. \<^verbatim>\<open>checkForExpiredOpportunity\<close> fetches a page or changes the
  store only if an opportunity of the id is not yet expired and the check is forced, or
  was never made, or was last made three hours ago or earlier. When the check is not
  forced and every opportunity of the id was last checked less than three hours ago, it
  returns \<^verbatim>\<open>success(false)\<close> without a fetch and without a change of the store. When
  the check is forced, the opportunity of the id is not yet expired and its link is not
  empty, the link is fetched.
\<close>

theorem checkForExpiredOpportunity_throttle:
  assumes run: "checkForExpiredOpportunity e oid force db = (res, db', fx)"
  shows "((\<exists>url. PageFetched url \<in> set fx) \<or> db' \<noteq> db \<longrightarrow>
            (\<exists>r \<in> set (opportunities db). ident r = oid
               \<and> (\<exists>t. expiresAt r = Some t \<and> now e < t)
               \<and> (force \<or> lastExpirationCheck r = None
                   \<or> (\<exists>t. lastExpirationCheck r = Some t \<and> t \<le> now e - 10800000))))
       \<and> (\<not> force
            \<and> (\<forall>r \<in> set (opportunities db). ident r = oid \<longrightarrow>
                  (\<exists>t. lastExpirationCheck r = Some t \<and> now e - 10800000 < t)) \<longrightarrow>
            res = Returned (Success False) \<and> db' = db \<and> fx = [])
       \<and> (\<forall>r t. force \<and> find (\<lambda>r. ident r = oid) (opportunities db) = Some r
                 \<and> expiresAt r = Some t \<and> now e < t \<and> link r \<noteq> [] \<longrightarrow>
              PageFetched (link r) \<in> set fx)"
proof -
  have only_if: "\<exists>r \<in> set (opportunities db). ident r = oid
               \<and> (\<exists>t. expiresAt r = Some t \<and> now e < t)
               \<and> (force \<or> lastExpirationCheck r = None
                   \<or> (\<exists>t. lastExpirationCheck r = Some t \<and> t \<le> now e - 10800000))"
    if "(\<exists>url. PageFetched url \<in> set fx) \<or> db' \<noteq> db"
  proof -
    from that obtain opp where "find (selectedForCheck e oid force) (opportunities db) = Some opp"
      using run unfolding checkForExpiredOpportunity_def by (auto split: option.splits)
    then have "opp \<in> set (opportunities db)" "selectedForCheck e oid force opp"
      by (auto simp: find_Some_iff)
    then show ?thesis
      by (intro bexI[of _ opp])
         (auto simp: selectedForCheck_def threeHoursAgo_def split: option.splits)
  qed
  have throttled: "res = Returned (Success False) \<and> db' = db \<and> fx = []"
    if "\<not> force" and "\<forall>r \<in> set (opportunities db). ident r = oid \<longrightarrow>
                  (\<exists>t. lastExpirationCheck r = Some t \<and> now e - 10800000 < t)"
  proof -
    from that have "find (selectedForCheck e oid force) (opportunities db) = None"
      by (fastforce simp: find_None_iff selectedForCheck_def threeHoursAgo_def
            split: option.splits)
    then show ?thesis using run unfolding checkForExpiredOpportunity_def by simp
  qed
  have forced: "PageFetched (link r) \<in> set fx"
    if "force" and first: "find (\<lambda>r. ident r = oid) (opportunities db) = Some r"
      and "expiresAt r = Some t" and "now e < t" and "link r \<noteq> []" for r t
  proof -
    from that have "selectedForCheck e oid force r"
      by (auto simp: selectedForCheck_def find_Some_iff)
    then have "find (selectedForCheck e oid force) (opportunities db) = Some r"
      by (rule find_weaker[OF first]) (simp add: selectedForCheck_def)
    then show ?thesis
      using run that unfolding checkForExpiredOpportunity_def
      by (auto simp: Let_def split: option.splits)
  qed
  from only_if throttled forced show ?thesis by blast
qed

text \<open>
  At 20000000 the opportunity \<open>o1\<close> was last checked at 19000000: the check that is not
  forced does nothing, the forced one fetches \<^verbatim>\<open>https://x.test/job\<close>.
\<close>

theorem checkForExpiredOpportunity_throttle_witness:
  "checkForExpiredOpportunity (exampleEnv (Some ''Senior Engineer... apply now'') None)
     ''o1'' False recentStore =
     (Returned (Success False), recentStore, [])
   \<and> find (\<lambda>r. ident r = ''o1'') (opportunities recentStore) =
       Some (exampleOpportunity\<lparr>lastExpirationCheck := Some 19000000\<rparr>)
   \<and> PageFetched ''https://x.test/job''
       \<in> set (snd (snd (checkForExpiredOpportunity
                          (exampleEnv (Some ''Senior Engineer... apply now'') None)
                          ''o1'' True recentStore)))"
proof -
  have first: "find (\<lambda>r. ident r = ''o1'') (opportunities recentStore) =
       Some (exampleOpportunity\<lparr>lastExpirationCheck := Some 19000000\<rparr>)"
    by (simp add: recentStore_def exampleOpportunity_def)
  have "PageFetched (link (exampleOpportunity\<lparr>lastExpirationCheck := Some 19000000\<rparr>))
          \<in> set [PageFetched ''https://x.test/job'']"
    using checkForExpiredOpportunity_throttle[OF check_forced] first
    by (simp add: exampleOpportunity_def exampleEnv_def)
  then show ?thesis
    using check_recent check_forced first by (simp add: exampleOpportunity_def)
qed

text \<open>
  Claim C7 as stated fails in two places. A forced check of an opportunity that has
  already expired fetches nothing (the condition of line 281 holds for a forced check
  too). And a check that is not forced runs when the last check was exactly three hours
  ago, which is not older than three hours (the comparison of line 288 is \<^verbatim>\<open><=\<close>).
\<close>

theorem forced_check_of_expired_fetches_nothing_counterexample:
  "map expiresAt (opportunities expiredStore) = [Some 5]
   \<and> now (exampleEnv (Some ''Senior Engineer... apply now'') None) = 20000000
   \<and> checkForExpiredOpportunity (exampleEnv (Some ''Senior Engineer... apply now'') None)
        ''o1'' True expiredStore =
      (Returned (Success False), expiredStore, [])
   \<and> map lastExpirationCheck (opportunities boundaryStore) = [Some (20000000 - 10800000)]
   \<and> checkForExpiredOpportunity (exampleEnv (Some ''Senior Engineer... apply now'') None)
        ''o1'' False boundaryStore =
      (Returned (Success False),
       exampleStore\<lparr>opportunities :=
                      [exampleOpportunity\<lparr>lastExpirationCheck := Some 20000000\<rparr>]\<rparr>,
       [PageFetched ''https://x.test/job''])"
  using check_expired_forced check_boundary
  by (simp add: expiredStore_def boundaryStore_def exampleEnv_def)

lemma parse_sixTag:
  "RefineOpportunityResponse_parse sixTagExtraction =
     Some \<lparr>ai_company = None, ai_description = Some ''Build things'', ai_expiresAt = None,
           ai_tags = Some [''Internship'', ''Fall'', ''Spring'', ''Winter'', ''Event'', ''Co-op''],
           ai_title = Some ''Engineer''\<rparr>"
  by (simp add: sixTagExtraction_def trim_def isWhiteSpace_def)

lemma parse_nonDate:
  "RefineOpportunityResponse_parse nonDateExtraction =
     Some \<lparr>ai_company = None, ai_description = Some ''Build things'',
           ai_expiresAt = Some ''next spring'', ai_tags = None, ai_title = Some ''Engineer''\<rparr>"
  by (simp add: nonDateExtraction_def trim_def isWhiteSpace_def)

lemma sixTag_refine:
  "refineOpportunity (exampleEnv None (Some sixTagExtraction)) ''text'' ''o1'' None None
     exampleStore =
     (Returned (Success (Some (exampleOpportunity\<lparr>title := ''Engineer'',
                                                   description := ''Build things''\<rparr>))),
      refinedStore, [])"
  by (simp add: refineOpportunity_def refineTransaction_def updateOpportunities_def Let_def
        parse_sixTag exampleEnv_def exampleStore_def exampleOpportunity_def refinedStore_def)

lemma nonDate_refine:
  "refineOpportunity (exampleEnv None (Some nonDateExtraction)) ''text'' ''o1'' None None
     exampleStore =
     (Threw, exampleStore, [])"
  by (simp add: refineOpportunity_def refineTransaction_def Let_def
        parse_nonDate exampleEnv_def)

lemma malformed_refine:
  "refineOpportunity (exampleEnv None (Some malformedExtraction)) ''text'' ''o1'' None None
     exampleStore =
     (Returned (Fail 400 ''Failed to validate JSON from AI response.''), exampleStore, [])"
  by (simp add: refineOpportunity_def parse_malformed exampleEnv_def)

lemma unparseable_refine:
  "refineOpportunity (exampleEnv None None) ''text'' ''o1'' None None exampleStore =
     (Returned (Fail 400 ''Failed to parse JSON from AI response.''), exampleStore, [])"
  by (simp add: refineOpportunity_def exampleEnv_def)

text \<open>
  Claim C8, as amended. The structure that \<^verbatim>\<open>refineOpportunity\<close> checks is the schema of
  lines 724 to 730: each of company, title and description is null or a string that is
  not empty once trimmed, the trimmed title of at most 100 and the trimmed description
  of at most 500 characters; \<^verbatim>\<open>expiresAt\<close> is null or any string; tags is null or a
  list of one string or more, each not empty once trimmed, with no upper bound. When the
  completion of the extraction client is not parseable as JSON, or is parsed to a value
  that this structure does not hold of, \<^verbatim>\<open>refineOpportunity\<close> returns a failure of code
  400, the store (the opportunity and its tag associations with it) is exactly as before,
  and nothing else is done. When the completion is parsed to a value that the structure
  holds of, the call does not return a failure of code 400; this includes a completion
  with more than five tags and one whose \<^verbatim>\<open>expiresAt\<close> is not a date.
\<close>

theorem malformed_completion_is_400_without_mutation:
  assumes completion:
        "getChatCompletion e content (map tagName (opportunityTags db)) = Success completion"
  shows "((case JSON_parse e completion of
             None \<Rightarrow> True
           | Some parsed \<Rightarrow> \<not> acceptedBySchema parsed) \<longrightarrow>
          (\<exists>message.
             refineOpportunity e content oid ch us db = (Returned (Fail 400 message), db, [])))
       \<and> ((case JSON_parse e completion of
             None \<Rightarrow> False
           | Some parsed \<Rightarrow> acceptedBySchema parsed) \<longrightarrow>
          (\<forall>message.
             fst (refineOpportunity e content oid ch us db) \<noteq> Returned (Fail 400 message)))"
proof (intro conjI impI)
  assume "case JSON_parse e completion of
            None \<Rightarrow> True
          | Some parsed \<Rightarrow> \<not> acceptedBySchema parsed"
  then have "case JSON_parse e completion of
               None \<Rightarrow> True
             | Some parsed \<Rightarrow> RefineOpportunityResponse_parse parsed = None"
    by (simp add: schema_rejects_iff split: option.splits)
  with completion
  show "\<exists>message.
          refineOpportunity e content oid ch us db = (Returned (Fail 400 message), db, [])"
    unfolding refineOpportunity_def by (auto split: option.splits)
next
  assume "case JSON_parse e completion of
            None \<Rightarrow> False
          | Some parsed \<Rightarrow> acceptedBySchema parsed"
  then obtain parsed data where "JSON_parse e completion = Some parsed"
      "RefineOpportunityResponse_parse parsed = Some data"
    using schema_rejects_iff by (auto split: option.splits)
  with completion
  show "\<forall>message. fst (refineOpportunity e content oid ch us db) \<noteq> Returned (Fail 400 message)"
    unfolding refineOpportunity_def by (auto split: option.splits prod.splits)
qed

text \<open>
  A completion that does not parse, and one that parses to an object whose title is a
  number and whose other keys are absent: both are answered with 400 and the store is as
  before. The usable extraction is accepted by the schema and is not answered with 400.
\<close>

theorem malformed_completion_is_400_without_mutation_witness:
  "JSON_parse (exampleEnv None None) ''completion'' = None
   \<and> refineOpportunity (exampleEnv None None) ''text'' ''o1'' None None exampleStore =
      (Returned (Fail 400 ''Failed to parse JSON from AI response.''), exampleStore, [])
   \<and> JSON_parse (exampleEnv None (Some malformedExtraction)) ''completion'' =
      Some malformedExtraction
   \<and> \<not> acceptedBySchema malformedExtraction
   \<and> (\<exists>message.
        refineOpportunity (exampleEnv None (Some malformedExtraction)) ''text'' ''o1'' None None
          exampleStore =
        (Returned (Fail 400 message), exampleStore, []))
   \<and> acceptedBySchema usableExtraction
   \<and> fst (refineOpportunity (exampleEnv None (Some usableExtraction)) ''text'' ''o1'' None None
            exampleStore) \<noteq>
      Returned (Fail 400 ''Failed to validate JSON from AI response.'')"
proof -
  have completion:
    "getChatCompletion (exampleEnv None parsed) ''text''
       (map tagName (opportunityTags exampleStore)) = Success ''completion''" for parsed
    by (simp add: exampleEnv_def)
  have rejected: "\<not> acceptedBySchema malformedExtraction"
    using parse_malformed by (simp add: schema_rejects_iff)
  have accepted: "acceptedBySchema usableExtraction"
    using parse_usable schema_rejects_iff[of usableExtraction] by simp
  have "\<exists>message.
        refineOpportunity (exampleEnv None (Some malformedExtraction)) ''text'' ''o1'' None None
          exampleStore =
        (Returned (Fail 400 message), exampleStore, [])"
    using malformed_completion_is_400_without_mutation[OF completion,
            of "Some malformedExtraction" "''o1''" None None] rejected
    by (simp add: exampleEnv_def)
  moreover have "fst (refineOpportunity (exampleEnv None (Some usableExtraction)) ''text''
            ''o1'' None None exampleStore) \<noteq>
      Returned (Fail 400 ''Failed to validate JSON from AI response.'')"
    using malformed_completion_is_400_without_mutation[OF completion,
            of "Some usableExtraction" "''o1''" None None] accepted
    by (simp add: exampleEnv_def)
  ultimately show ?thesis
    using unparseable_refine rejected accepted by (simp add: exampleEnv_def)
qed

text \<open>
  Claim C8 as stated fails at two completions that the structure of the specification
  (one to five tags, \<^verbatim>\<open>expiresAt\<close> a date string) does not hold of. One has six tags:
  the schema accepts it and the refinement commits, changing the title, the description,
  \<open>refinedAt\<close> and the tag associations of \<open>o1\<close>. The other has the \<^verbatim>\<open>expiresAt\<close>
  \<^verbatim>\<open>next spring\<close>, which is not a date: the schema accepts it and the call throws. Neither
  is answered with 400.
\<close>

theorem six_tags_pass_the_schema_counterexample:
  "RefineOpportunityResponse_parse sixTagExtraction =
     Some \<lparr>ai_company = None, ai_description = Some ''Build things'', ai_expiresAt = None,
           ai_tags = Some [''Internship'', ''Fall'', ''Spring'', ''Winter'', ''Event'', ''Co-op''],
           ai_title = Some ''Engineer''\<rparr>
   \<and> length [''Internship'', ''Fall'', ''Spring'', ''Winter'', ''Event'', ''Co-op''] = 6
   \<and> refineOpportunity (exampleEnv None (Some sixTagExtraction)) ''text'' ''o1'' None None
        exampleStore =
      (Returned (Success (Some (exampleOpportunity\<lparr>title := ''Engineer'',
                                                    description := ''Build things''\<rparr>))),
       refinedStore, [])
   \<and> refinedStore \<noteq> exampleStore
   \<and> RefineOpportunityResponse_parse nonDateExtraction =
     Some \<lparr>ai_company = None, ai_description = Some ''Build things'',
           ai_expiresAt = Some ''next spring'', ai_tags = None, ai_title = Some ''Engineer''\<rparr>
   \<and> Date_parse (exampleEnv None (Some nonDateExtraction)) ''next spring'' = None
   \<and> refineOpportunity (exampleEnv None (Some nonDateExtraction)) ''text'' ''o1'' None None
        exampleStore =
      (Threw, exampleStore, [])"
  using parse_sixTag sixTag_refine parse_nonDate nonDate_refine
  by (simp add: refinedStore_def exampleStore_def exampleEnv_def)

text \<open>
  Claim C9. \<^verbatim>\<open>bookmarkOpportunity\<close> toggles the bookmark of a member on an opportunity.
  It returns success; it removes the rows of the pair if there is one and appends one
  row otherwise, and touches no other table; so the pair is bookmarked afterwards exactly
  when it was not before, and after a second call it is bookmarked exactly when it was
  at the start, with the same set of bookmarks. After either call the pair has at most
  one row, the number of rows of every other pair is as before, and a table without
  repeated rows stays so.
\<close>

theorem bookmark_toggle:
  assumes once: "bookmarkOpportunity m oid db = (r1, db1, fx1)"
      and twice: "bookmarkOpportunity m oid db1 = (r2, db2, fx2)"
  shows "r1 = Returned (Success ()) \<and> r2 = Returned (Success ())
    \<and> opportunityBookmarks db1 =
        (if (oid, m) \<in> set (opportunityBookmarks db)
         then filter (\<lambda>b. b \<noteq> (oid, m)) (opportunityBookmarks db)
         else opportunityBookmarks db @ [(oid, m)])
    \<and> db1 = db\<lparr>opportunityBookmarks := opportunityBookmarks db1\<rparr>
    \<and> db2 = db\<lparr>opportunityBookmarks := opportunityBookmarks db2\<rparr>
    \<and> ((oid, m) \<in> set (opportunityBookmarks db1) \<longleftrightarrow> (oid, m) \<notin> set (opportunityBookmarks db))
    \<and> ((oid, m) \<in> set (opportunityBookmarks db2) \<longleftrightarrow> (oid, m) \<in> set (opportunityBookmarks db))
    \<and> set (opportunityBookmarks db2) = set (opportunityBookmarks db)
    \<and> count_list (opportunityBookmarks db1) (oid, m) \<le> 1
    \<and> count_list (opportunityBookmarks db2) (oid, m) \<le> 1
    \<and> (\<forall>p. p \<noteq> (oid, m) \<longrightarrow>
          count_list (opportunityBookmarks db1) p = count_list (opportunityBookmarks db) p
        \<and> count_list (opportunityBookmarks db2) p = count_list (opportunityBookmarks db) p)
    \<and> (distinct (opportunityBookmarks db) \<longrightarrow>
          distinct (opportunityBookmarks db1) \<and> distinct (opportunityBookmarks db2))"
proof -
  have b1: "opportunityBookmarks db1 =
        (if (oid, m) \<in> set (opportunityBookmarks db)
         then filter (\<lambda>b. b \<noteq> (oid, m)) (opportunityBookmarks db)
         else opportunityBookmarks db @ [(oid, m)])"
    using bookmarks_after[of m oid db] once by simp
  have b2: "opportunityBookmarks db2 =
        (if (oid, m) \<in> set (opportunityBookmarks db1)
         then filter (\<lambda>b. b \<noteq> (oid, m)) (opportunityBookmarks db1)
         else opportunityBookmarks db1 @ [(oid, m)])"
    using bookmarks_after[of m oid db1] twice by simp
  have r: "r1 = Returned (Success ()) \<and> r2 = Returned (Success ())"
    using once twice by (auto simp: bookmarkOpportunity_def Let_def split: if_splits)
  have f1: "db1 = db\<lparr>opportunityBookmarks := opportunityBookmarks db1\<rparr>"
    using once by (auto simp: bookmarkOpportunity_def Let_def split: if_splits)
  have "db2 = db1\<lparr>opportunityBookmarks := opportunityBookmarks db2\<rparr>"
    using twice by (auto simp: bookmarkOpportunity_def Let_def split: if_splits)
  with f1 have f2: "db2 = db\<lparr>opportunityBookmarks := opportunityBookmarks db2\<rparr>"
    by (metis database.update_convs(4) database.surjective)
  have rest: "((oid, m) \<in> set (opportunityBookmarks db1) \<longleftrightarrow> (oid, m) \<notin> set (opportunityBookmarks db))
    \<and> ((oid, m) \<in> set (opportunityBookmarks db2) \<longleftrightarrow> (oid, m) \<in> set (opportunityBookmarks db))
    \<and> set (opportunityBookmarks db2) = set (opportunityBookmarks db)
    \<and> count_list (opportunityBookmarks db1) (oid, m) \<le> 1
    \<and> count_list (opportunityBookmarks db2) (oid, m) \<le> 1
    \<and> (\<forall>p. p \<noteq> (oid, m) \<longrightarrow>
          count_list (opportunityBookmarks db1) p = count_list (opportunityBookmarks db) p
        \<and> count_list (opportunityBookmarks db2) p = count_list (opportunityBookmarks db) p)
    \<and> (distinct (opportunityBookmarks db) \<longrightarrow>
          distinct (opportunityBookmarks db1) \<and> distinct (opportunityBookmarks db2))"
    using b1 b2 by (auto simp: count_filter_neq filter_id_conv)
  from r b1 f1 f2 rest show ?thesis by blast
qed

lemma bookmark_once:
  "bookmarkOpportunity ''m2'' ''o1'' exampleStore =
     (Returned (Success ()), exampleStore\<lparr>opportunityBookmarks := [(''o1'', ''m2'')]\<rparr>,
      [ActivityCompleted ''m2'' ''o1'' ''m1''])"
  by (simp add: bookmarkOpportunity_def Let_def exampleStore_def exampleOpportunity_def)

lemma bookmark_twice:
  "bookmarkOpportunity ''m2'' ''o1'' (exampleStore\<lparr>opportunityBookmarks := [(''o1'', ''m2'')]\<rparr>) =
     (Returned (Success ()), exampleStore, [])"
  by (simp add: bookmarkOpportunity_def Let_def exampleStore_def exampleOpportunity_def)

text \<open>
  The member \<open>m2\<close> bookmarks \<open>o1\<close>, which has no bookmark, and then once more: the first
  call inserts the row, the second removes it, and the store is the one of the start.
\<close>

theorem bookmark_toggle_witness:
  "bookmarkOpportunity ''m2'' ''o1'' exampleStore =
     (Returned (Success ()), exampleStore\<lparr>opportunityBookmarks := [(''o1'', ''m2'')]\<rparr>,
      [ActivityCompleted ''m2'' ''o1'' ''m1''])
   \<and> bookmarkOpportunity ''m2'' ''o1'' (exampleStore\<lparr>opportunityBookmarks := [(''o1'', ''m2'')]\<rparr>) =
     (Returned (Success ()), exampleStore, [])
   \<and> opportunityBookmarks exampleStore = []
   \<and> count_list (opportunityBookmarks (exampleStore\<lparr>opportunityBookmarks := [(''o1'', ''m2'')]\<rparr>))
       (''o1'', ''m2'') \<le> 1"
proof -
  note t = bookmark_toggle[OF bookmark_once bookmark_twice]
  from t have "count_list
       (opportunityBookmarks (exampleStore\<lparr>opportunityBookmarks := [(''o1'', ''m2'')]\<rparr>))
       (''o1'', ''m2'') \<le> 1"
    by blast
  then show ?thesis
    using bookmark_once bookmark_twice by (simp add: exampleStore_def)
qed

text \<open>
  Claim C10, as amended. Called without a member id, \<^verbatim>\<open>deleteOpportunity\<close> checks no
  permission: it deletes the opportunity and returns success with its id, for every id,
  and no opportunity of the id is left. The failure 403 is returned exactly when a
  member id that is not empty is supplied and no opportunity of the given id was posted
  by the member or exists while the member is an active admin; so an id without an
  opportunity is answered with 403 for every member, an active admin included. Every
  other call deletes and succeeds.
\<close>

theorem deleteOpportunity_permission:
  "deleteOpportunity None oid db = (Returned (Success oid), deleteOpportunityRows oid db, [])
   \<and> (\<forall>r \<in> set (opportunities (deleteOpportunityRows oid db)). ident r \<noteq> oid)
   \<and> ((\<exists>message. fst (deleteOpportunity member oid db) = Returned (Fail 403 message)) \<longleftrightarrow>
        (\<exists>m. member = Some m \<and> m \<noteq> []
           \<and> (\<forall>r \<in> set (opportunities db). ident r = oid \<longrightarrow>
                 postedBy r \<noteq> Some m \<and> \<not> isActiveAdmin db m)))
   \<and> ((\<forall>message. fst (deleteOpportunity member oid db) \<noteq> Returned (Fail 403 message)) \<longrightarrow>
        deleteOpportunity member oid db =
          (Returned (Success oid), deleteOpportunityRows oid db, []))"
  unfolding deleteOpportunity_def hasOpportunityWritePermission_def
  by (auto simp: deleteOpportunityRows_def find_None_iff split: option.splits)

text \<open>
  On the example store a call without a member deletes \<open>o1\<close>; the member \<open>m2\<close>, who
  neither posted \<open>o1\<close> nor is an admin, is refused; the poster \<open>m1\<close> deletes it.
\<close>

theorem deleteOpportunity_permission_witness:
  "deleteOpportunity None ''o1'' exampleStore =
     (Returned (Success ''o1''), exampleStore\<lparr>opportunities := []\<rparr>, [])
   \<and> deleteOpportunity (Some ''m2'') ''o1'' exampleStore =
     (Returned (Fail 403 ''You do not have permission to delete this opportunity.''),
      exampleStore, [])
   \<and> (\<exists>message. fst (deleteOpportunity (Some ''m2'') ''o1'' exampleStore) =
                  Returned (Fail 403 message))
   \<and> deleteOpportunity (Some ''m1'') ''o1'' exampleStore =
     (Returned (Success ''o1''), exampleStore\<lparr>opportunities := []\<rparr>, [])"
proof -
  have "\<exists>m. Some ''m2'' = Some m \<and> m \<noteq> []
          \<and> (\<forall>r \<in> set (opportunities exampleStore). ident r = ''o1'' \<longrightarrow>
                postedBy r \<noteq> Some m \<and> \<not> isActiveAdmin exampleStore m)"
    by (simp add: exampleStore_def exampleOpportunity_def isActiveAdmin_def)
  with deleteOpportunity_permission[of "''o1''" exampleStore "Some ''m2''"]
  have "\<exists>message. fst (deleteOpportunity (Some ''m2'') ''o1'' exampleStore) =
                  Returned (Fail 403 message)"
    by blast
  then show ?thesis
    by (simp add: deleteOpportunity_def hasOpportunityWritePermission_def isActiveAdmin_def
          deleteOpportunityRows_def exampleStore_def exampleOpportunity_def)
qed

text \<open>
  Claim C10 as stated fails for an active admin and an id that has no opportunity:
  \<open>a1\<close> is an active admin, the store has no opportunity \<open>o9\<close>, and the call is
  refused with 403 (the permission query of lines 1141 to 1155 selects a row of the
  opportunity, and there is none).
\<close>

theorem active_admin_is_refused_for_absent_opportunity_counterexample:
  "isActiveAdmin exampleStore ''a1''
   \<and> map ident (opportunities exampleStore) = [''o1'']
   \<and> deleteOpportunity (Some ''a1'') ''o9'' exampleStore =
     (Returned (Fail 403 ''You do not have permission to delete this opportunity.''),
      exampleStore, [])"
  by (simp add: deleteOpportunity_def hasOpportunityWritePermission_def isActiveAdmin_def
        exampleStore_def exampleOpportunity_def)

end
